theory Spec2Isabelle
  imports Complex_Main "HOL-Library.Word"
begin

section \<open>Data model of SceneManager\<close>

text \<open>
  Shallow embedding of \<^verbatim>\<open>SceneManager.cpp\<close>. C++ \<^verbatim>\<open>float\<close> values are modelled as
  reals and the decimal literals of the source as the rationals they denote; \<^verbatim>\<open>GLuint\<close>
  is a 32-bit word; \<^verbatim>\<open>std::string\<close> tags are strings.
\<close>

type_synonym vec2 = "real \<times> real"
type_synonym vec3 = "real \<times> real \<times> real"
type_synonym vec4 = "real \<times> real \<times> real \<times> real"

text \<open>A \<^verbatim>\<open>glm::mat4\<close>, written as its four rows.\<close>

type_synonym mat4 = "vec4 \<times> vec4 \<times> vec4 \<times> vec4"

text \<open>\<^verbatim>\<open>TEXTURE_INFO\<close>: one slot of \<^verbatim>\<open>m_textureIDs\<close>.\<close>

record TEXTURE_INFO =
  tex_ID :: "32 word"
  tex_tag :: string

text \<open>\<^verbatim>\<open>OBJECT_MATERIAL\<close>: one element of \<^verbatim>\<open>m_objectMaterials\<close>.\<close>

record OBJECT_MATERIAL =
  mat_tag :: string
  diffuseColor :: vec3
  specularColor :: vec3
  shininess :: real

text \<open>
  The shader manager is an external collaborator; what the scene manager does to it is
  to write named uniforms. A value of a uniform is one of the kinds the setters take.
\<close>

datatype uniform =
    UBool bool
  | UInt int
  | USampler2D int
  | UFloat real
  | UVec2 vec2
  | UVec3 vec3
  | UVec4 vec4
  | UMat4 mat4

type_synonym ShaderManager = "string \<rightharpoonup> uniform"

definition setBoolValue :: "string \<Rightarrow> bool \<Rightarrow> ShaderManager \<Rightarrow> ShaderManager" where
  "setBoolValue name v sh = sh(name \<mapsto> UBool v)"

text \<open>\<^verbatim>\<open>setIntValue(name, false)\<close> and \<^verbatim>\<open>setIntValue(name, true)\<close> pass 0 and 1.\<close>

definition setIntValue :: "string \<Rightarrow> int \<Rightarrow> ShaderManager \<Rightarrow> ShaderManager" where
  "setIntValue name v sh = sh(name \<mapsto> UInt v)"

definition setSampler2DValue :: "string \<Rightarrow> int \<Rightarrow> ShaderManager \<Rightarrow> ShaderManager" where
  "setSampler2DValue name v sh = sh(name \<mapsto> USampler2D v)"

definition setFloatValue :: "string \<Rightarrow> real \<Rightarrow> ShaderManager \<Rightarrow> ShaderManager" where
  "setFloatValue name v sh = sh(name \<mapsto> UFloat v)"

definition setVec2Value :: "string \<Rightarrow> vec2 \<Rightarrow> ShaderManager \<Rightarrow> ShaderManager" where
  "setVec2Value name v sh = sh(name \<mapsto> UVec2 v)"

definition setVec3Value :: "string \<Rightarrow> vec3 \<Rightarrow> ShaderManager \<Rightarrow> ShaderManager" where
  "setVec3Value name v sh = sh(name \<mapsto> UVec3 v)"

definition setVec4Value :: "string \<Rightarrow> vec4 \<Rightarrow> ShaderManager \<Rightarrow> ShaderManager" where
  "setVec4Value name v sh = sh(name \<mapsto> UVec4 v)"

definition setMat4Value :: "string \<Rightarrow> mat4 \<Rightarrow> ShaderManager \<Rightarrow> ShaderManager" where
  "setMat4Value name v sh = sh(name \<mapsto> UMat4 v)"

text \<open>The uniform name strings of the anonymous namespace.\<close>

definition g_ModelName :: string where "g_ModelName = ''model''"
definition g_ColorValueName :: string where "g_ColorValueName = ''objectColor''"
definition g_TextureValueName :: string where "g_TextureValueName = ''objectTexture''"
definition g_UseTextureName :: string where "g_UseTextureName = ''bUseTexture''"
definition g_UseLightingName :: string where "g_UseLightingName = ''bUseLighting''"

text \<open>The primitive meshes a draw request names.\<close>

datatype mesh =
    BoxMesh
  | PlaneMesh
  | CylinderMesh bool bool bool
  | SphereMesh
  | TorusMesh

text \<open>
  A draw request consumes whatever state was set most recently: the record keeps the
  uniforms and the culling flag as they were when the request was issued.
\<close>

record draw_request =
  drawn_mesh :: mesh
  drawn_uniforms :: "ShaderManager option"
  drawn_cull :: bool

text \<open>What \<^verbatim>\<open>CreateGLTexture\<close> prints to \<^verbatim>\<open>std::cout\<close>.\<close>

datatype log_line =
    LoadedImage string int int int
  | ChannelsNotImplemented int
  | CouldNotLoad string

text \<open>
  The state the scene manager works on. \<^verbatim>\<open>m_pShaderManager\<close> is a pointer: \<open>None\<close> is
  \<^verbatim>\<open>nullptr\<close>. \<^verbatim>\<open>m_textureIDs\<close> holds the slots \<open>0 ..< m_loadedTextures\<close> of the array,
  which are the only ones the code reads, so \<^verbatim>\<open>m_loadedTextures\<close> is its length. The
  OpenGL state the code touches is the back-face culling flag, the active texture unit
  and the 2D texture bound on each unit.
\<close>

record scene =
  m_pShaderManager :: "ShaderManager option"
  m_textureIDs :: "TEXTURE_INFO list"
  m_objectMaterials :: "OBJECT_MATERIAL list"
  gl_cull_face :: bool
  gl_active_texture :: nat
  gl_texture_2d :: "nat \<Rightarrow> 32 word"
  draws :: "draw_request list"
  cout :: "log_line list"

definition m_loadedTextures :: "scene \<Rightarrow> int" where
  "m_loadedTextures s = int (length (m_textureIDs s))"

text \<open>
  Behaviour the C++ standard leaves undefined is a fault of the model: a call through a
  null \<^verbatim>\<open>m_pShaderManager\<close>, and a write past the end of \<^verbatim>\<open>m_textureIDs\<close>.
\<close>

datatype fault = NullShaderManager | TextureArrayOverflow

section \<open>Texture registry\<close>

text \<open>
  \<^verbatim>\<open>CreateGLTexture\<close>. The image decoder and the driver are external: \<open>image_data\<close> is what
  \<^verbatim>\<open>stbi_load\<close> returns (\<open>None\<close> for a null pointer, else width, height and channel
  count) and \<open>textureID\<close> the name \<^verbatim>\<open>glGenTextures\<close> hands out. The size of the array
  \<^verbatim>\<open>m_textureIDs\<close> is declared in \<^verbatim>\<open>SceneManager.h\<close>; it is the parameter \<open>capacity\<close>.
  The result is the returned \<^verbatim>\<open>bool\<close> and the state after the call.
\<close>

definition CreateGLTexture ::
  "nat \<Rightarrow> (int \<times> int \<times> int) option \<Rightarrow> 32 word \<Rightarrow> string \<Rightarrow> string \<Rightarrow> scene
    \<Rightarrow> fault + (bool \<times> scene)" where
  "CreateGLTexture capacity image_data textureID filename tag s =
    (case image_data of
       Some (width, height, colorChannels) \<Rightarrow>
         (let s1 = s\<lparr>cout := cout s @ [LoadedImage filename width height colorChannels]\<rparr>;
              s2 = s1\<lparr>gl_texture_2d := (gl_texture_2d s1)(gl_active_texture s1 := textureID)\<rparr>
          in if colorChannels = 3 \<or> colorChannels = 4 then
               (let s3 = s2\<lparr>gl_texture_2d := (gl_texture_2d s2)(gl_active_texture s2 := 0)\<rparr>
                in if length (m_textureIDs s3) < capacity then
                     Inr (True, s3\<lparr>m_textureIDs :=
                       m_textureIDs s3 @ [\<lparr>tex_ID = textureID, tex_tag = tag\<rparr>]\<rparr>)
                   else Inl TextureArrayOverflow)
             else Inr (False, s2\<lparr>cout := cout s2 @ [ChannelsNotImplemented colorChannels]\<rparr>))
     | None \<Rightarrow> Inr (False, s\<lparr>cout := cout s @ [CouldNotLoad filename]\<rparr>))"

text \<open>\<^verbatim>\<open>BindGLTextures\<close>: the loop over \<open>i < m_loadedTextures\<close>, from slot \<open>i\<close> on.\<close>

fun bind_from :: "nat \<Rightarrow> TEXTURE_INFO list \<Rightarrow> scene \<Rightarrow> scene" where
  "bind_from i [] s = s"
| "bind_from i (t # ts) s =
     bind_from (Suc i) ts
       (s\<lparr>gl_active_texture := i, gl_texture_2d := (gl_texture_2d s)(i := tex_ID t)\<rparr>)"

definition BindGLTextures :: "scene \<Rightarrow> scene" where
  "BindGLTextures s = bind_from 0 (m_textureIDs s) s"

text \<open>
  \<^verbatim>\<open>FindTextureID\<close>: the first slot whose tag matches; the \<^verbatim>\<open>GLuint\<close> is returned as
  an \<^verbatim>\<open>int\<close>.
\<close>

fun find_id_from :: "TEXTURE_INFO list \<Rightarrow> string \<Rightarrow> int" where
  "find_id_from [] tag = -1"
| "find_id_from (t # ts) tag = (if tex_tag t = tag then sint (tex_ID t) else find_id_from ts tag)"

definition FindTextureID :: "scene \<Rightarrow> string \<Rightarrow> int" where
  "FindTextureID s tag = find_id_from (m_textureIDs s) tag"

text \<open>\<^verbatim>\<open>FindTextureSlot\<close>: the loop from index \<open>i\<close> on.\<close>

fun find_slot_from :: "nat \<Rightarrow> TEXTURE_INFO list \<Rightarrow> string \<Rightarrow> int" where
  "find_slot_from i [] tag = -1"
| "find_slot_from i (t # ts) tag =
     (if tex_tag t = tag then int i else find_slot_from (Suc i) ts tag)"

definition FindTextureSlot :: "scene \<Rightarrow> string \<Rightarrow> int" where
  "FindTextureSlot s tag = find_slot_from 0 (m_textureIDs s) tag"

section \<open>Material table\<close>

text \<open>
  \<^verbatim>\<open>FindMaterial\<close>: the range-for over \<^verbatim>\<open>m_objectMaterials\<close>. The out-parameter
  \<open>material\<close> is written on a match only.
\<close>

fun find_material_in :: "OBJECT_MATERIAL list \<Rightarrow> string \<Rightarrow> OBJECT_MATERIAL
    \<Rightarrow> bool \<times> OBJECT_MATERIAL" where
  "find_material_in [] tag material = (False, material)"
| "find_material_in (mat # mats) tag material =
     (if mat_tag mat = tag then (True, mat) else find_material_in mats tag material)"

definition FindMaterial :: "scene \<Rightarrow> string \<Rightarrow> OBJECT_MATERIAL \<Rightarrow> bool \<times> OBJECT_MATERIAL" where
  "FindMaterial s tag material = find_material_in (m_objectMaterials s) tag material"

text \<open>Defining a preset is \<^verbatim>\<open>m_objectMaterials.push_back\<close>.\<close>

definition push_back :: "OBJECT_MATERIAL \<Rightarrow> scene \<Rightarrow> scene" where
  "push_back mat s = s\<lparr>m_objectMaterials := m_objectMaterials s @ [mat]\<rparr>"

definition preset :: "string \<Rightarrow> vec3 \<Rightarrow> vec3 \<Rightarrow> real \<Rightarrow> OBJECT_MATERIAL" where
  "preset t d sp sh = \<lparr>mat_tag = t, diffuseColor = d, specularColor = sp, shininess = sh\<rparr>"

text \<open>The presets of \<^verbatim>\<open>DefineObjectMaterials\<close>, in the order they are pushed.\<close>

definition scene_materials :: "OBJECT_MATERIAL list" where
  "scene_materials =
    [preset ''grayMatte'' (0.45, 0.45, 0.45) (0.1, 0.1, 0.1) 2.0,
     preset ''ceramic'' (0.95, 0.93, 0.90) (0.20, 0.20, 0.19) 12.0,
     preset ''wood'' (0.6, 0.4, 0.2) (0.15, 0.1, 0.05) 8.0,
     preset ''woodie'' (0.55, 0.35, 0.18) (0.2, 0.15, 0.08) 12.0,
     preset ''lightWood'' (0.75, 0.65, 0.50) (0.1, 0.1, 0.08) 4.0,
     preset ''darkMetal'' (0.08, 0.08, 0.08) (0.6, 0.6, 0.6) 32.0,
     preset ''counter'' (0.82, 0.78, 0.72) (0.92, 0.90, 0.88) 128.0,
     preset ''tableTop'' (0.80, 0.76, 0.70) (0.98, 0.97, 0.95) 256.0,
     preset ''metal'' (0.5, 0.5, 0.5) (0.6, 0.6, 0.6) 24.0,
     preset ''foliage'' (0.16, 0.46, 0.14) (0.12, 0.22, 0.10) 14.0,
     preset ''bark'' (0.30, 0.24, 0.18) (0.05, 0.04, 0.03) 2.0,
     preset ''soil'' (0.25, 0.18, 0.10) (0.02, 0.02, 0.02) 1.0,
     preset ''napkin'' (0.95, 0.95, 0.93) (0.10, 0.10, 0.10) 4.0,
     preset ''wall'' (0.95, 0.95, 0.90) (0.02, 0.02, 0.02) 1.0,
     preset ''cabinetWhite'' (0.78, 0.78, 0.77) (0.12, 0.12, 0.11) 12.0,
     preset ''stainless'' (0.40, 0.40, 0.41) (0.55, 0.55, 0.56) 48.0,
     preset ''fridgeHandle'' (0.14, 0.14, 0.14) (0.35, 0.35, 0.35) 32.0]"

definition DefineObjectMaterials :: "scene \<Rightarrow> scene" where
  "DefineObjectMaterials s = fold push_back scene_materials s"

section \<open>Model transform\<close>

text \<open>
  The matrix functions are GLM's. A \<^verbatim>\<open>glm::mat4\<close> is stored by columns; here it is
  written by rows, so that \<open>mat_vec m v\<close> is \<^verbatim>\<open>m * v\<close> and \<open>mat_mul a b\<close> is \<^verbatim>\<open>a * b\<close>.
\<close>

definition dot4 :: "vec4 \<Rightarrow> vec4 \<Rightarrow> real" where
  "dot4 a b = (case a of (a0, a1, a2, a3) \<Rightarrow> case b of (b0, b1, b2, b3) \<Rightarrow>
     a0 * b0 + a1 * b1 + a2 * b2 + a3 * b3)"

definition mat_vec :: "mat4 \<Rightarrow> vec4 \<Rightarrow> vec4" where
  "mat_vec m v = (case m of (r0, r1, r2, r3) \<Rightarrow> (dot4 r0 v, dot4 r1 v, dot4 r2 v, dot4 r3 v))"

definition transpose4 :: "mat4 \<Rightarrow> mat4" where
  "transpose4 m =
    (case m of ((a00, a01, a02, a03), (a10, a11, a12, a13),
                (a20, a21, a22, a23), (a30, a31, a32, a33)) \<Rightarrow>
      ((a00, a10, a20, a30), (a01, a11, a21, a31),
       (a02, a12, a22, a32), (a03, a13, a23, a33)))"

definition mat_mul :: "mat4 \<Rightarrow> mat4 \<Rightarrow> mat4" where
  "mat_mul a b =
    (case a of (r0, r1, r2, r3) \<Rightarrow> case transpose4 b of (c0, c1, c2, c3) \<Rightarrow>
      ((dot4 r0 c0, dot4 r0 c1, dot4 r0 c2, dot4 r0 c3),
       (dot4 r1 c0, dot4 r1 c1, dot4 r1 c2, dot4 r1 c3),
       (dot4 r2 c0, dot4 r2 c1, dot4 r2 c2, dot4 r2 c3),
       (dot4 r3 c0, dot4 r3 c1, dot4 r3 c2, dot4 r3 c3)))"

definition identity4 :: mat4 where
  "identity4 = ((1, 0, 0, 0), (0, 1, 0, 0), (0, 0, 1, 0), (0, 0, 0, 1))"

definition glm_radians :: "real \<Rightarrow> real" where
  "glm_radians degrees = degrees * pi / 180"

definition glm_translate :: "vec3 \<Rightarrow> mat4" where
  "glm_translate v = (case v of (x, y, z) \<Rightarrow>
     ((1, 0, 0, x), (0, 1, 0, y), (0, 0, 1, z), (0, 0, 0, 1)))"

definition glm_scale :: "vec3 \<Rightarrow> mat4" where
  "glm_scale v = (case v of (x, y, z) \<Rightarrow>
     ((x, 0, 0, 0), (0, y, 0, 0), (0, 0, z, 0), (0, 0, 0, 1)))"

definition glm_normalize :: "vec3 \<Rightarrow> vec3" where
  "glm_normalize v = (case v of (x, y, z) \<Rightarrow>
     (let n = sqrt (x * x + y * y + z * z) in (x / n, y / n, z / n)))"

text \<open>\<^verbatim>\<open>glm::rotate(angle, v)\<close>: the rotation by \<open>angle\<close> radians about the axis \<open>v\<close>.\<close>

definition glm_rotate :: "real \<Rightarrow> vec3 \<Rightarrow> mat4" where
  "glm_rotate angle v =
    (let c = cos angle; s = sin angle in
     case glm_normalize v of (ax, ay, az) \<Rightarrow>
       (let tx = (1 - c) * ax; ty = (1 - c) * ay; tz = (1 - c) * az in
        ((c + tx * ax, ty * ax - s * az, tz * ax + s * ay, 0),
         (tx * ay + s * az, c + ty * ay, tz * ay - s * ax, 0),
         (tx * az - s * ay, ty * az + s * ax, c + tz * az, 0),
         (0, 0, 0, 1))))"

text \<open>The local \<^verbatim>\<open>modelView\<close> of \<^verbatim>\<open>SetTransformations\<close>; \<^verbatim>\<open>*\<close> associates to the left.\<close>

definition modelView :: "vec3 \<Rightarrow> real \<Rightarrow> real \<Rightarrow> real \<Rightarrow> vec3 \<Rightarrow> mat4" where
  "modelView scaleXYZ XrotationDegrees YrotationDegrees ZrotationDegrees positionXYZ =
    mat_mul (mat_mul (mat_mul (mat_mul
      (glm_translate positionXYZ)
      (glm_rotate (glm_radians ZrotationDegrees) (0, 0, 1)))
      (glm_rotate (glm_radians YrotationDegrees) (0, 1, 0)))
      (glm_rotate (glm_radians XrotationDegrees) (1, 0, 0)))
      (glm_scale scaleXYZ)"

definition SetTransformations ::
  "vec3 \<Rightarrow> real \<Rightarrow> real \<Rightarrow> real \<Rightarrow> vec3 \<Rightarrow> scene \<Rightarrow> scene" where
  "SetTransformations scaleXYZ XrotationDegrees YrotationDegrees ZrotationDegrees positionXYZ s =
    (case m_pShaderManager s of
       Some sh \<Rightarrow> s\<lparr>m_pShaderManager := Some (setMat4Value g_ModelName
         (modelView scaleXYZ XrotationDegrees YrotationDegrees ZrotationDegrees positionXYZ) sh)\<rparr>
     | None \<Rightarrow> s)"

section \<open>Shader state setters\<close>

definition SetShaderColor :: "real \<Rightarrow> real \<Rightarrow> real \<Rightarrow> real \<Rightarrow> scene \<Rightarrow> scene" where
  "SetShaderColor redColorValue greenColorValue blueColorValue alphaValue s =
    (let color = (redColorValue, greenColorValue, blueColorValue, alphaValue) in
     case m_pShaderManager s of
       Some sh \<Rightarrow> s\<lparr>m_pShaderManager :=
         Some (setVec4Value g_ColorValueName color (setIntValue g_UseTextureName 0 sh))\<rparr>
     | None \<Rightarrow> s)"

definition SetShaderTexture :: "string \<Rightarrow> scene \<Rightarrow> scene" where
  "SetShaderTexture textureTag s =
    (case m_pShaderManager s of
       Some sh \<Rightarrow>
         (let sh1 = setIntValue g_UseTextureName 1 sh;
              textureID = FindTextureSlot s textureTag
          in s\<lparr>m_pShaderManager := Some (setSampler2DValue g_TextureValueName textureID sh1)\<rparr>)
     | None \<Rightarrow> s)"

definition SetTextureUVScale :: "real \<Rightarrow> real \<Rightarrow> scene \<Rightarrow> scene" where
  "SetTextureUVScale u v s =
    (case m_pShaderManager s of
       Some sh \<Rightarrow> s\<lparr>m_pShaderManager := Some (setVec2Value ''UVscale'' (u, v) sh)\<rparr>
     | None \<Rightarrow> s)"

text \<open>
  The local \<^verbatim>\<open>OBJECT_MATERIAL material\<close> of \<^verbatim>\<open>SetShaderMaterial\<close> before the lookup; it
  is read only after \<^verbatim>\<open>FindMaterial\<close> has overwritten it.
\<close>

definition fresh_material :: OBJECT_MATERIAL where
  "fresh_material =
    \<lparr>mat_tag = [], diffuseColor = (0, 0, 0), specularColor = (0, 0, 0), shininess = 0\<rparr>"

text \<open>\<^verbatim>\<open>SetShaderMaterial\<close> calls through \<^verbatim>\<open>m_pShaderManager\<close> without a null test.\<close>

definition SetShaderMaterial :: "string \<Rightarrow> scene \<Rightarrow> fault + scene" where
  "SetShaderMaterial materialTag s =
    (case FindMaterial s materialTag fresh_material of
       (True, mat) \<Rightarrow>
         (case m_pShaderManager s of
            None \<Rightarrow> Inl NullShaderManager
          | Some sh \<Rightarrow> Inr (s\<lparr>m_pShaderManager := Some
              (setFloatValue ''material.shininess'' (shininess mat)
                (setVec3Value ''material.specularColor'' (specularColor mat)
                  (setVec3Value ''material.diffuseColor'' (diffuseColor mat) sh)))\<rparr>))
     | (False, mat) \<Rightarrow> Inr s)"

section \<open>Light rig\<close>

text \<open>The uniform writes of \<^verbatim>\<open>SetupSceneLights\<close>, in order.\<close>

definition light_writes :: "(string \<times> uniform) list" where
  "light_writes =
    [(g_UseLightingName, UBool True),
     (''directionalLight.bActive'', UBool True),
     (''directionalLight.direction'', UVec3 (1.0, -0.55, -0.40)),
     (''directionalLight.ambient'', UVec3 (0.07, 0.06, 0.06)),
     (''directionalLight.diffuse'', UVec3 (0.24, 0.23, 0.22)),
     (''directionalLight.specular'', UVec3 (0.10, 0.10, 0.10)),
     (''pointLights[0].bActive'', UBool True),
     (''pointLights[0].position'', UVec3 (-14.0, 9.0, 18.0)),
     (''pointLights[0].ambient'', UVec3 (0.08, 0.07, 0.07)),
     (''pointLights[0].diffuse'', UVec3 (0.50, 0.48, 0.46)),
     (''pointLights[0].specular'', UVec3 (0.14, 0.13, 0.12)),
     (''pointLights[1].bActive'', UBool True),
     (''pointLights[1].position'', UVec3 (-8.0, 16.0, 6.0)),
     (''pointLights[1].ambient'', UVec3 (0.05, 0.06, 0.08)),
     (''pointLights[1].diffuse'', UVec3 (0.18, 0.21, 0.26)),
     (''pointLights[1].specular'', UVec3 (0.05, 0.06, 0.08)),
     (''pointLights[2].bActive'', UBool True),
     (''pointLights[2].position'', UVec3 (0.0, 3.0, 14.0)),
     (''pointLights[2].ambient'', UVec3 (0.07, 0.07, 0.06)),
     (''pointLights[2].diffuse'', UVec3 (0.38, 0.37, 0.35)),
     (''pointLights[2].specular'', UVec3 (0.12, 0.12, 0.11)),
     (''pointLights[3].bActive'', UBool True),
     (''pointLights[3].position'', UVec3 (-2.0, 18.0, 2.0)),
     (''pointLights[3].ambient'', UVec3 (0.05, 0.05, 0.05)),
     (''pointLights[3].diffuse'', UVec3 (0.18, 0.18, 0.18)),
     (''pointLights[3].specular'', UVec3 (0.04, 0.04, 0.04)),
     (''pointLights[4].bActive'', UBool False),
     (''spotLight.bActive'', UBool False)]"

text \<open>
  \<^verbatim>\<open>SetupSceneLights\<close> has no null test: its first statement already calls through
  \<^verbatim>\<open>m_pShaderManager\<close>.
\<close>

definition SetupSceneLights :: "scene \<Rightarrow> fault + scene" where
  "SetupSceneLights s =
    (case m_pShaderManager s of
       None \<Rightarrow> Inl NullShaderManager
     | Some sh \<Rightarrow> Inr (s\<lparr>m_pShaderManager :=
         Some (fold (\<lambda>(name, v) sh'. sh'(name \<mapsto> v)) light_writes sh)\<rparr>))"

section \<open>Scene composition\<close>

text \<open>A draw request on \<^verbatim>\<open>m_basicMeshes\<close>.\<close>

definition draw_mesh :: "mesh \<Rightarrow> scene \<Rightarrow> scene" where
  "draw_mesh m s = s\<lparr>draws := draws s @
     [\<lparr>drawn_mesh = m, drawn_uniforms = m_pShaderManager s, drawn_cull = gl_cull_face s\<rparr>]\<rparr>"

text \<open>
  The body of \<^verbatim>\<open>RenderScene\<close> between the two culling statements is a straight line of
  calls of six kinds, with its \<^verbatim>\<open>for\<close> loops over constant ranges.
\<close>

datatype call =
    SetTransformationsCall vec3 real real real vec3
  | SetShaderColorCall real real real real
  | SetShaderTextureCall string
  | SetTextureUVScaleCall real real
  | SetShaderMaterialCall string
  | DrawCall mesh

fun perform :: "call \<Rightarrow> scene \<Rightarrow> fault + scene" where
  "perform (SetTransformationsCall sc x y z p) s = Inr (SetTransformations sc x y z p s)"
| "perform (SetShaderColorCall r g b a) s = Inr (SetShaderColor r g b a s)"
| "perform (SetShaderTextureCall t) s = Inr (SetShaderTexture t s)"
| "perform (SetTextureUVScaleCall u v) s = Inr (SetTextureUVScale u v s)"
| "perform (SetShaderMaterialCall t) s = SetShaderMaterial t s"
| "perform (DrawCall m) s = Inr (draw_mesh m s)"

fun perform_all :: "call list \<Rightarrow> scene \<Rightarrow> fault + scene" where
  "perform_all [] s = Inr s"
| "perform_all (c # cs) s =
     (case perform c s of Inl f \<Rightarrow> Inl f | Inr s' \<Rightarrow> perform_all cs s')"


text \<open>The local constants of \<^verbatim>\<open>RenderScene\<close>, in the order they are declared.\<close>

definition upperTableY :: real where "upperTableY = 1.0"
definition lowerShelfY :: real where "lowerShelfY = -0.5"
definition bgZ :: real where "bgZ = -11.0"
definition floorY :: real where "floorY = -4.0"
definition ceilY :: real where "ceilY = 16.0"
definition wallH :: real where "wallH = ceilY - floorY"
definition wallW :: real where "wallW = 60.0"
definition cabZ :: real where "cabZ = bgZ + 0.35"
definition cabW :: real where "cabW = 5.5"
definition cabX :: real where "cabX = -9.5"
definition fridgeW :: real where "fridgeW = 5.2"
definition fridgeX :: real where "fridgeX = -1.0"
definition fridgeBotY :: real where "fridgeBotY = floorY + 0.3"
definition fridgeH :: real where "fridgeH = 13.5"
definition fridgeTopY :: real where "fridgeTopY = fridgeBotY + fridgeH"
definition upCabH :: real where "upCabH = 2.3"
definition upCabY :: real where "upCabY = fridgeTopY + upCabH * 0.5"
definition fridgeFaceZ :: real where "fridgeFaceZ = cabZ + 0.55"
definition fridgeDepth :: real where "fridgeDepth = 1.2"
definition topThickness :: real where "topThickness = 1.0"
definition potRadius :: real where "potRadius = 1.6"
definition potCenterX :: real where "potCenterX = 0.0"
definition potCenterZ :: real where "potCenterZ = -3.0"
definition potBaseY :: real where "potBaseY = upperTableY + topThickness"
definition baseH :: real where "baseH = 1.0"
definition baseR :: real where "baseR = potRadius * 0.92"
definition upperH :: real where "upperH = 1.8"
definition potTopY :: real where "potTopY = potBaseY + baseH + upperH"
definition cHr :: real where "cHr = 0.19"
definition cHg :: real where "cHg = 0.50"
definition cHb :: real where "cHb = 0.15"
definition cMr :: real where "cMr = 0.14"
definition cMg :: real where "cMg = 0.40"
definition cMb :: real where "cMb = 0.11"
definition cSr :: real where "cSr = 0.09"
definition cSg :: real where "cSg = 0.28"
definition cSb :: real where "cSb = 0.08"
definition tcX :: real where "tcX = potCenterX - 0.04"
definition tcY :: real where "tcY = potTopY + 3.12"
definition tcZ :: real where "tcZ = potCenterZ"
definition lcX :: real where "lcX = potCenterX - 1.00"
definition lcY :: real where "lcY = potTopY + 1.27"
definition lcZ :: real where "lcZ = potCenterZ"
definition rcX :: real where "rcX = potCenterX + 1.26"
definition rcY :: real where "rcY = potTopY + 1.96"
definition rcZ :: real where "rcZ = potCenterZ"
definition mugRadius :: real where "mugRadius = 0.65"
definition mugHeight :: real where "mugHeight = 1.275"
definition mugX :: real where "mugX = -4.0"
definition mugZ :: real where "mugZ = 4.0"
definition mugBaseY :: real where "mugBaseY = lowerShelfY"
definition coasterRadius :: real where "coasterRadius = 1.1"
definition coasterThickness :: real where "coasterThickness = 0.15"
definition coasterGap :: real where "coasterGap = 0.06"
definition numCoasters :: int where "numCoasters = 8"
definition coasterX :: real where "coasterX = -1.5"
definition coasterZ :: real where "coasterZ = 4.5"
definition baseY :: real where "baseY = lowerShelfY"
definition stackBaseY :: real where "stackBaseY = baseY + 0.10"
definition stackHeight :: real where "stackHeight = numCoasters * (coasterThickness + coasterGap)"
definition stackTopY :: real where "stackTopY = stackBaseY + stackHeight"
definition wireR :: real where "wireR = 0.045"
definition wireH :: real where "wireH = stackHeight"
definition legSpacing :: real where "legSpacing = 0.30"
definition edgeDist :: real where "edgeDist = coasterRadius + 0.03"
definition footY :: real where "footY = baseY + wireR"
definition nhX :: real where "nhX = 2.0"
definition nhZ :: real where "nhZ = 4.5"
definition nhBaseY :: real where "nhBaseY = lowerShelfY"
definition panelWidth :: real where "panelWidth = 3.4"
definition panelRectH :: real where "panelRectH = 2.0"
definition archRadius :: real where "archRadius = panelWidth / 2.0"
definition panelThk :: real where "panelThk = 0.2"
definition slotGap :: real where "slotGap = 0.75"
definition frontZ :: real where "frontZ = nhZ + slotGap / 2.0 + panelThk / 2.0"
definition backZ :: real where "backZ = nhZ - slotGap / 2.0 - panelThk / 2.0"
definition totalDepth :: real where "totalDepth = slotGap + panelThk * 2.0"
definition totalWoodH :: real where "totalWoodH = panelRectH + archRadius"
definition napkinH :: real where "napkinH = totalWoodH * 1.0"
definition napkinCount :: int where "napkinCount = 12"
definition totalSlotZ :: real where "totalSlotZ = slotGap * 0.88"
definition napkinThk :: real where "napkinThk = totalSlotZ / napkinCount"
definition startZ :: real where "startZ = nhZ - totalSlotZ / 2.0 + napkinThk / 2.0"

lemmas scene_consts =
  upperTableY_def lowerShelfY_def bgZ_def floorY_def ceilY_def wallH_def
  wallW_def cabZ_def cabW_def cabX_def fridgeW_def fridgeX_def
  fridgeBotY_def fridgeH_def fridgeTopY_def upCabH_def upCabY_def fridgeFaceZ_def
  fridgeDepth_def topThickness_def potRadius_def potCenterX_def potCenterZ_def potBaseY_def
  baseH_def baseR_def upperH_def potTopY_def cHr_def cHg_def
  cHb_def cMr_def cMg_def cMb_def cSr_def cSg_def
  cSb_def tcX_def tcY_def tcZ_def lcX_def lcY_def
  lcZ_def rcX_def rcY_def rcZ_def mugRadius_def mugHeight_def
  mugX_def mugZ_def mugBaseY_def coasterRadius_def coasterThickness_def coasterGap_def
  numCoasters_def coasterX_def coasterZ_def baseY_def stackBaseY_def stackHeight_def
  stackTopY_def wireR_def wireH_def legSpacing_def edgeDist_def footY_def
  nhX_def nhZ_def nhBaseY_def panelWidth_def panelRectH_def archRadius_def
  panelThk_def slotGap_def frontZ_def backZ_def totalDepth_def totalWoodH_def
  napkinH_def napkinCount_def totalSlotZ_def napkinThk_def startZ_def

definition background_wall_calls :: "call list" where
  "background_wall_calls =
    [SetTransformationsCall (wallW, wallH, 0.3) 0 0 0 (0.0, floorY + wallH * 0.5, bgZ),
     SetShaderTextureCall ''wall'',
     SetTextureUVScaleCall 1.0 1.0,
     SetShaderMaterialCall ''wall'',
     DrawCall BoxMesh,
     SetTransformationsCall (wallW, 0.3, 6.0) 0 0 0 (0.0, floorY + 0.15, bgZ + 3.0),
     SetShaderColorCall 0.16 0.11 0.07 1.0,
     SetShaderMaterialCall ''bark'',
     DrawCall BoxMesh,
     SetTransformationsCall (wallW, 1.5, 4.0) 0 0 0 (0.0, ceilY - 0.75, bgZ + 2.0),
     SetShaderTextureCall ''wall'',
     SetTextureUVScaleCall 1.0 1.0,
     SetShaderMaterialCall ''wall'',
     DrawCall BoxMesh,
     SetTransformationsCall (cabW, 7.5, 0.7) 0 0 0 (cabX, 8.5, cabZ),
     SetShaderColorCall 0.78 0.78 0.77 1.0,
     SetShaderMaterialCall ''cabinetWhite'',
     DrawCall BoxMesh,
     SetTransformationsCall (cabW, 7.0, 0.7) 0 0 0 (cabX, 0.5, cabZ),
     SetShaderColorCall 0.78 0.78 0.77 1.0,
     SetShaderMaterialCall ''cabinetWhite'',
     DrawCall BoxMesh,
     SetTransformationsCall (cabW * 0.80, 6.8, 0.12) 0 0 0 (cabX, 8.5, cabZ + 0.41),
     SetShaderColorCall 0.72 0.72 0.71 1.0,
     SetShaderMaterialCall ''cabinetWhite'',
     DrawCall BoxMesh,
     SetTransformationsCall (cabW * 0.80, 6.3, 0.12) 0 0 0 (cabX, 0.5, cabZ + 0.41),
     SetShaderColorCall 0.72 0.72 0.71 1.0,
     SetShaderMaterialCall ''cabinetWhite'',
     DrawCall BoxMesh,
     SetTransformationsCall (cabW, 0.25, 0.75) 0 0 0 (cabX, 4.2, cabZ + 0.05),
     SetShaderColorCall 0.78 0.78 0.77 1.0,
     SetShaderMaterialCall ''cabinetWhite'',
     DrawCall BoxMesh]"

definition pantry_handle_calls :: "call list" where
  "pantry_handle_calls = concat (map (\<lambda>d::int.
     let handleY = (if d = 0 then 8.5 else 0.5) in
     [SetTransformationsCall (0.12, 1.2, 0.12) 0 0 0 (cabX + 1.8, handleY, cabZ + 0.54),
      SetShaderColorCall 0.55 0.55 0.55 1.0,
      SetShaderMaterialCall ''metal'',
      DrawCall (CylinderMesh False False True)]) [0..1])"

definition fridge_surround_calls :: "call list" where
  "fridge_surround_calls =
    [SetTransformationsCall (1.2, fridgeH + 2.3, 0.9) 0 0 0 (fridgeX - fridgeW * 0.5 - 0.6, fridgeBotY + (fridgeH + 2.3) * 0.5, cabZ - 0.05),
     SetShaderColorCall 0.78 0.78 0.77 1.0,
     SetShaderMaterialCall ''cabinetWhite'',
     DrawCall BoxMesh,
     SetTransformationsCall (1.2, fridgeH + 2.3, 0.9) 0 0 0 (fridgeX + fridgeW * 0.5 + 0.6, fridgeBotY + (fridgeH + 2.3) * 0.5, cabZ - 0.05),
     SetShaderColorCall 0.78 0.78 0.77 1.0,
     SetShaderMaterialCall ''cabinetWhite'',
     DrawCall BoxMesh,
     SetTransformationsCall (fridgeW + 2.4, upCabH, 0.85) 0 0 0 (fridgeX, upCabY, cabZ),
     SetShaderColorCall 0.78 0.78 0.77 1.0,
     SetShaderMaterialCall ''cabinetWhite'',
     DrawCall BoxMesh,
     SetTransformationsCall ((fridgeW + 2.4) * 0.46, upCabH * 0.82, 0.12) 0 0 0 (fridgeX - (fridgeW + 2.4) * 0.25, upCabY, cabZ + 0.48),
     SetShaderColorCall 0.72 0.72 0.71 1.0,
     SetShaderMaterialCall ''cabinetWhite'',
     DrawCall BoxMesh,
     SetTransformationsCall ((fridgeW + 2.4) * 0.46, upCabH * 0.82, 0.12) 0 0 0 (fridgeX + (fridgeW + 2.4) * 0.25, upCabY, cabZ + 0.48),
     SetShaderColorCall 0.72 0.72 0.71 1.0,
     SetShaderMaterialCall ''cabinetWhite'',
     DrawCall BoxMesh]"

definition cabinet_handle_calls :: "call list" where
  "cabinet_handle_calls = concat (map (\<lambda>d::int.
    [SetTransformationsCall (0.1, 0.9, 0.1) 0 0 0 (fridgeX + d * 0.3, upCabY - 0.5, cabZ + 0.61),
     SetShaderColorCall 0.55 0.55 0.55 1.0,
     SetShaderMaterialCall ''metal'',
     DrawCall (CylinderMesh False False True)]) [-1, 1])"

definition fridge_body_calls :: "call list" where
  "fridge_body_calls =
    [SetTransformationsCall (fridgeW, fridgeH, fridgeDepth) 0 0 0 (fridgeX, fridgeBotY + fridgeH * 0.5, fridgeFaceZ - fridgeDepth * 0.5),
     SetShaderColorCall 0.40 0.40 0.41 1.0,
     SetShaderMaterialCall ''stainless'',
     DrawCall BoxMesh,
     SetTransformationsCall (0.06, fridgeH * 0.72, fridgeDepth + 0.02) 0 0 0 (fridgeX, fridgeBotY + fridgeH * 0.26 + fridgeH * 0.72 * 0.5, fridgeFaceZ),
     SetShaderColorCall 0.22 0.22 0.23 1.0,
     SetShaderMaterialCall ''darkMetal'',
     DrawCall BoxMesh,
     SetTransformationsCall (fridgeW + 0.05, 0.08, fridgeDepth + 0.02) 0 0 0 (fridgeX, fridgeBotY + fridgeH * 0.26, fridgeFaceZ),
     SetShaderColorCall 0.20 0.20 0.21 1.0,
     SetShaderMaterialCall ''darkMetal'',
     DrawCall BoxMesh,
     SetTransformationsCall (0.14, 3.8, 0.14) 0 0 0 (fridgeX - 0.55, fridgeBotY + fridgeH * 0.62, fridgeFaceZ + 0.22),
     SetShaderColorCall 0.14 0.14 0.14 1.0,
     SetShaderMaterialCall ''fridgeHandle'',
     DrawCall BoxMesh,
     SetTransformationsCall (0.14, 3.8, 0.14) 0 0 0 (fridgeX + 0.55, fridgeBotY + fridgeH * 0.62, fridgeFaceZ + 0.22),
     SetShaderColorCall 0.14 0.14 0.14 1.0,
     SetShaderMaterialCall ''fridgeHandle'',
     DrawCall BoxMesh,
     SetTransformationsCall (fridgeW * 0.65, 0.18, 0.18) 0 0 0 (fridgeX, fridgeBotY + fridgeH * 0.13, fridgeFaceZ + 0.22),
     SetShaderColorCall 0.14 0.14 0.14 1.0,
     SetShaderMaterialCall ''fridgeHandle'',
     DrawCall BoxMesh]"

definition fridge_feet_calls :: "call list" where
  "fridge_feet_calls = concat (map (\<lambda>f::int.
    [SetTransformationsCall (0.25, 0.28, 0.25) 0 0 0 (fridgeX + f * (fridgeW * 0.38), fridgeBotY - 0.14, fridgeFaceZ - 0.4),
     SetShaderColorCall 0.10 0.10 0.10 1.0,
     SetShaderMaterialCall ''darkMetal'',
     DrawCall (CylinderMesh True True True)]) [-1, 1])"

definition right_wall_calls :: "call list" where
  "right_wall_calls =
    [SetTransformationsCall (8.0, wallH, 0.3) 0 0 0 (8.0, floorY + wallH * 0.5, bgZ),
     SetShaderTextureCall ''wall'',
     SetTextureUVScaleCall 1.0 1.0,
     SetShaderMaterialCall ''wall'',
     DrawCall BoxMesh,
     SetTransformationsCall (0.55, 0.85, 0.12) 0 0 0 (6.8, 2.8, bgZ + 0.22),
     SetShaderColorCall 0.80 0.80 0.79 1.0,
     SetShaderMaterialCall ''cabinetWhite'',
     DrawCall BoxMesh]"

definition counter_calls :: "call list" where
  "counter_calls =
    [SetTransformationsCall (20.0, topThickness, 8.0) 0 0 0 (0.0, upperTableY + topThickness * 0.5, -3.0),
     SetShaderTextureCall ''toptable'',
     SetTextureUVScaleCall 1.0 1.0,
     SetShaderMaterialCall ''tableTop'',
     DrawCall BoxMesh,
     SetTransformationsCall (20.0, upperTableY - lowerShelfY, 0.8) 0 0 0 (0.0, (upperTableY + lowerShelfY) / 2.0, 0.0),
     SetShaderColorCall 0.72 0.72 0.70 1.0,
     SetShaderMaterialCall ''counter'',
     DrawCall BoxMesh,
     SetTransformationsCall (20.0, 1.0, 6.0) 0 0 0 (0.0, lowerShelfY, 3.0),
     SetShaderColorCall 0.55 0.53 0.50 1.0,
     SetShaderTextureCall ''bottomtable'',
     SetTextureUVScaleCall 1.0 1.0,
     SetShaderMaterialCall ''counter'',
     DrawCall PlaneMesh]"

definition pot_calls :: "call list" where
  "pot_calls =
    [SetTransformationsCall (baseR, baseH, baseR) 0 0 0 (potCenterX, potBaseY, potCenterZ),
     SetShaderTextureCall ''pot'',
     SetTextureUVScaleCall 1.0 1.0,
     SetShaderMaterialCall ''grayMatte'',
     DrawCall (CylinderMesh True True True),
     SetTransformationsCall (potRadius, upperH, potRadius) 0 0 0 (potCenterX, potBaseY + baseH, potCenterZ),
     SetShaderTextureCall ''pot'',
     SetTextureUVScaleCall 1.0 1.0,
     SetShaderMaterialCall ''grayMatte'',
     DrawCall (CylinderMesh True True True),
     SetTransformationsCall (potRadius * 0.90, 0.05, potRadius * 0.90) 0 0 0 (potCenterX, potTopY, potCenterZ),
     SetShaderColorCall 0.25 0.18 0.10 1.0,
     SetShaderMaterialCall ''soil'',
     DrawCall (CylinderMesh True True True)]"

definition trunk_calls :: "call list" where
  "trunk_calls =
    [SetShaderColorCall 0.20 0.17 0.14 1.0,
     SetShaderMaterialCall ''bark'',
     SetTransformationsCall (0.22, 0.45, 0.22) 0 0 (-20) (potCenterX + 0.00, potTopY + 0.05, potCenterZ),
     DrawCall (CylinderMesh False False True),
     SetTransformationsCall (0.21, 0.21, 0.21) 0 0 0 (potCenterX + 0.15, potTopY + 0.47, potCenterZ),
     DrawCall SphereMesh,
     SetTransformationsCall (0.19, 0.75, 0.19) 0 0 (-15) (potCenterX + 0.15, potTopY + 0.47, potCenterZ),
     DrawCall (CylinderMesh False False True),
     SetTransformationsCall (0.19, 0.19, 0.19) 0 0 0 (potCenterX + 0.34, potTopY + 1.19, potCenterZ),
     DrawCall SphereMesh,
     SetTransformationsCall (0.16, 0.75, 0.16) 0 0 8 (potCenterX + 0.34, potTopY + 1.19, potCenterZ),
     DrawCall (CylinderMesh False False True),
     SetTransformationsCall (0.16, 0.16, 0.16) 0 0 0 (potCenterX + 0.24, potTopY + 1.93, potCenterZ),
     DrawCall SphereMesh,
     SetTransformationsCall (0.12, 0.75, 0.12) 0 0 22 (potCenterX + 0.24, potTopY + 1.93, potCenterZ),
     DrawCall (CylinderMesh False False True)]"

definition branch_calls :: "call list" where
  "branch_calls =
    [SetTransformationsCall (0.11, 1.40, 0.11) 0 0 55 (potCenterX + 0.15, potTopY + 0.47, potCenterZ),
     DrawCall (CylinderMesh False False True),
     SetTransformationsCall (0.07, 0.65, 0.07) 0 0 42 (potCenterX - 0.54, potTopY + 0.95, potCenterZ),
     DrawCall (CylinderMesh False False True),
     SetTransformationsCall (0.10, 1.20, 0.10) 0 0 (-50) (potCenterX + 0.34, potTopY + 1.19, potCenterZ),
     DrawCall (CylinderMesh False False True),
     SetTransformationsCall (0.06, 0.60, 0.06) 0 0 (-35) (potCenterX + 0.89, potTopY + 1.65, potCenterZ),
     DrawCall (CylinderMesh False False True)]"

definition crown_calls :: "call list" where
  "crown_calls =
    [SetShaderMaterialCall ''foliage'',
     SetTransformationsCall (0.65, 0.55, 0.62) 0 0 0 (tcX, tcY, tcZ),
     SetShaderColorCall cMr cMg cMb 1.0,
     DrawCall SphereMesh,
     SetTransformationsCall (0.48, 0.42, 0.46) 0 0 0 (tcX - 0.08, tcY + 0.52, tcZ),
     SetShaderColorCall cHr cHg cHb 1.0,
     DrawCall SphereMesh,
     SetTransformationsCall (0.52, 0.44, 0.48) 0 0 0 (tcX + 0.58, tcY + 0.12, tcZ),
     SetShaderColorCall cHr (cHg + 0.02) cHb 1.0,
     DrawCall SphereMesh,
     SetTransformationsCall (0.50, 0.42, 0.46) 0 0 0 (tcX - 0.55, tcY + 0.08, tcZ),
     SetShaderColorCall cMr (cMg + 0.02) cMb 1.0,
     DrawCall SphereMesh,
     SetTransformationsCall (0.46, 0.40, 0.44) 0 0 0 (tcX + 0.10, tcY - 0.06, tcZ + 0.50),
     SetShaderColorCall (cHr + 0.01) (cHg + 0.03) cHb 1.0,
     DrawCall SphereMesh,
     SetTransformationsCall (0.44, 0.38, 0.42) 0 0 0 (tcX + 0.05, tcY + 0.04, tcZ - 0.48),
     SetShaderColorCall cSr cSg cSb 1.0,
     DrawCall SphereMesh,
     SetTransformationsCall (0.55, 0.38, 0.52) 0 0 0 (tcX + 0.06, tcY - 0.42, tcZ),
     SetShaderColorCall cSr (cSg + 0.02) cSb 1.0,
     DrawCall SphereMesh,
     SetTransformationsCall (0.38, 0.33, 0.36) 0 0 0 (tcX + 0.44, tcY + 0.48, tcZ + 0.16),
     SetShaderColorCall (cHr + 0.02) (cHg + 0.04) (cHb + 0.01) 1.0,
     DrawCall SphereMesh]"

definition left_cluster_calls :: "call list" where
  "left_cluster_calls =
    [SetTransformationsCall (0.40, 0.34, 0.38) 0 0 0 (lcX, lcY, lcZ),
     SetShaderColorCall cMr cMg cMb 1.0,
     DrawCall SphereMesh,
     SetTransformationsCall (0.30, 0.26, 0.28) 0 0 0 (lcX - 0.05, lcY + 0.36, lcZ),
     SetShaderColorCall (cHr + 0.01) (cHg + 0.03) cHb 1.0,
     DrawCall SphereMesh,
     SetTransformationsCall (0.28, 0.24, 0.26) 0 0 0 (lcX - 0.40, lcY + 0.05, lcZ),
     SetShaderColorCall cHr (cHg + 0.02) cHb 1.0,
     DrawCall SphereMesh,
     SetTransformationsCall (0.26, 0.22, 0.24) 0 0 0 (lcX + 0.36, lcY + 0.08, lcZ),
     SetShaderColorCall cSr (cSg + 0.02) cSb 1.0,
     DrawCall SphereMesh,
     SetTransformationsCall (0.30, 0.25, 0.28) 0 0 0 (lcX - 0.08, lcY + 0.02, lcZ + 0.36),
     SetShaderColorCall cHr (cHg + 0.01) cHb 1.0,
     DrawCall SphereMesh,
     SetTransformationsCall (0.34, 0.24, 0.32) 0 0 0 (lcX - 0.04, lcY - 0.28, lcZ),
     SetShaderColorCall cSr cSg cSb 1.0,
     DrawCall SphereMesh,
     SetTransformationsCall (0.24, 0.20, 0.22) 0 0 0 (potCenterX - 0.96, potTopY + 1.45, potCenterZ),
     SetShaderColorCall (cHr + 0.01) (cHg + 0.04) (cHb + 0.01) 1.0,
     DrawCall SphereMesh]"

definition right_cluster_calls :: "call list" where
  "right_cluster_calls =
    [SetTransformationsCall (0.40, 0.34, 0.38) 0 0 0 (rcX, rcY, rcZ),
     SetShaderColorCall cMr cMg cMb 1.0,
     DrawCall SphereMesh,
     SetTransformationsCall (0.30, 0.26, 0.28) 0 0 0 (rcX + 0.04, rcY + 0.36, rcZ),
     SetShaderColorCall (cHr + 0.01) (cHg + 0.03) cHb 1.0,
     DrawCall SphereMesh,
     SetTransformationsCall (0.28, 0.24, 0.26) 0 0 0 (rcX + 0.40, rcY + 0.05, rcZ),
     SetShaderColorCall cHr (cHg + 0.02) cHb 1.0,
     DrawCall SphereMesh,
     SetTransformationsCall (0.26, 0.22, 0.24) 0 0 0 (rcX - 0.36, rcY + 0.08, rcZ),
     SetShaderColorCall cSr (cSg + 0.02) cSb 1.0,
     DrawCall SphereMesh,
     SetTransformationsCall (0.30, 0.25, 0.28) 0 0 0 (rcX + 0.06, rcY + 0.02, rcZ + 0.36),
     SetShaderColorCall cHr (cHg + 0.01) cHb 1.0,
     DrawCall SphereMesh,
     SetTransformationsCall (0.34, 0.24, 0.32) 0 0 0 (rcX + 0.04, rcY - 0.28, rcZ),
     SetShaderColorCall cSr cSg cSb 1.0,
     DrawCall SphereMesh,
     SetTransformationsCall (0.24, 0.20, 0.22) 0 0 0 (potCenterX + 1.22, potTopY + 2.14, potCenterZ),
     SetShaderColorCall (cHr + 0.01) (cHg + 0.04) (cHb + 0.01) 1.0,
     DrawCall SphereMesh]"

definition mug_calls :: "call list" where
  "mug_calls =
    [SetTransformationsCall (mugRadius, mugHeight, mugRadius) 0 0 0 (mugX, mugBaseY, mugZ),
     SetShaderColorCall 0.95 0.93 0.90 1.0,
     SetShaderMaterialCall ''ceramic'',
     DrawCall (CylinderMesh True True True),
     SetTransformationsCall (mugRadius * 0.88, 0.055, mugRadius * 0.88) 0 0 0 (mugX, mugBaseY + mugHeight - 0.05, mugZ),
     SetShaderColorCall 0.88 0.84 0.72 1.0,
     SetShaderMaterialCall ''ceramic'',
     DrawCall (CylinderMesh True True True),
     SetTransformationsCall (0.42, 0.3, 0.42) 90.0 0.0 0.0 (mugX - mugRadius, mugBaseY + mugHeight * 0.50, mugZ),
     SetShaderColorCall 0.95 0.93 0.90 1.0,
     SetShaderMaterialCall ''ceramic'',
     DrawCall TorusMesh,
     SetTransformationsCall (mugRadius + 0.01, mugHeight * 0.25, mugRadius + 0.01) 0 0 0 (mugX, mugBaseY + mugHeight * 0.15, mugZ),
     SetShaderColorCall 0.88 0.86 0.82 1.0,
     SetShaderMaterialCall ''ceramic'',
     DrawCall (CylinderMesh False False True)]"

definition wire_holder_calls :: "call list" where
  "wire_holder_calls =
    [SetTransformationsCall (wireR, wireH, wireR) 0 0 0 (coasterX - legSpacing, baseY, coasterZ + edgeDist),
     SetShaderColorCall 0.08 0.08 0.08 1.0,
     SetShaderMaterialCall ''darkMetal'',
     DrawCall (CylinderMesh False False True),
     SetTransformationsCall (wireR, edgeDist, wireR) (-90) 0 0 (coasterX - legSpacing, footY, coasterZ + edgeDist),
     DrawCall (CylinderMesh False False True),
     SetTransformationsCall (wireR, wireH, wireR) 0 0 0 (coasterX + legSpacing, baseY, coasterZ + edgeDist),
     DrawCall (CylinderMesh False False True),
     SetTransformationsCall (wireR, edgeDist, wireR) (-90) 0 0 (coasterX + legSpacing, footY, coasterZ + edgeDist),
     DrawCall (CylinderMesh False False True),
     SetTransformationsCall (legSpacing + wireR, wireR * 1.5, wireR) 0 0 0 (coasterX, baseY + wireH, coasterZ + edgeDist),
     DrawCall SphereMesh,
     SetTransformationsCall (wireR, wireH, wireR) 0 0 0 (coasterX - legSpacing, baseY, coasterZ - edgeDist),
     SetShaderColorCall 0.08 0.08 0.08 1.0,
     SetShaderMaterialCall ''darkMetal'',
     DrawCall (CylinderMesh False False True),
     SetTransformationsCall (wireR, edgeDist, wireR) 90 0 0 (coasterX - legSpacing, footY, coasterZ - edgeDist),
     DrawCall (CylinderMesh False False True),
     SetTransformationsCall (wireR, wireH, wireR) 0 0 0 (coasterX + legSpacing, baseY, coasterZ - edgeDist),
     DrawCall (CylinderMesh False False True),
     SetTransformationsCall (wireR, edgeDist, wireR) 90 0 0 (coasterX + legSpacing, footY, coasterZ - edgeDist),
     DrawCall (CylinderMesh False False True),
     SetTransformationsCall (legSpacing + wireR, wireR * 1.5, wireR) 0 0 0 (coasterX, baseY + wireH, coasterZ - edgeDist),
     DrawCall SphereMesh,
     SetTransformationsCall (wireR, wireH, wireR) 0 0 0 (coasterX - edgeDist, baseY, coasterZ - legSpacing),
     SetShaderColorCall 0.08 0.08 0.08 1.0,
     SetShaderMaterialCall ''darkMetal'',
     DrawCall (CylinderMesh False False True),
     SetTransformationsCall (wireR, edgeDist, wireR) 0 0 (-90) (coasterX - edgeDist, footY, coasterZ - legSpacing),
     DrawCall (CylinderMesh False False True),
     SetTransformationsCall (wireR, wireH, wireR) 0 0 0 (coasterX - edgeDist, baseY, coasterZ + legSpacing),
     DrawCall (CylinderMesh False False True),
     SetTransformationsCall (wireR, edgeDist, wireR) 0 0 (-90) (coasterX - edgeDist, footY, coasterZ + legSpacing),
     DrawCall (CylinderMesh False False True),
     SetTransformationsCall (wireR, wireR * 1.5, legSpacing + wireR) 0 0 0 (coasterX - edgeDist, baseY + wireH, coasterZ),
     DrawCall SphereMesh,
     SetTransformationsCall (wireR, wireH, wireR) 0 0 0 (coasterX + edgeDist, baseY, coasterZ - legSpacing),
     SetShaderColorCall 0.08 0.08 0.08 1.0,
     SetShaderMaterialCall ''darkMetal'',
     DrawCall (CylinderMesh False False True),
     SetTransformationsCall (wireR, edgeDist, wireR) 0 0 90 (coasterX + edgeDist, footY, coasterZ - legSpacing),
     DrawCall (CylinderMesh False False True),
     SetTransformationsCall (wireR, wireH, wireR) 0 0 0 (coasterX + edgeDist, baseY, coasterZ + legSpacing),
     DrawCall (CylinderMesh False False True),
     SetTransformationsCall (wireR, edgeDist, wireR) 0 0 90 (coasterX + edgeDist, footY, coasterZ + legSpacing),
     DrawCall (CylinderMesh False False True),
     SetTransformationsCall (wireR, wireR * 1.5, legSpacing + wireR) 0 0 0 (coasterX + edgeDist, baseY + wireH, coasterZ),
     DrawCall SphereMesh]"

definition coaster_stack_calls :: "call list" where
  "coaster_stack_calls = concat (map (\<lambda>i::int.
     let shade = (if i mod 2 = 0 then 0.90 else 0.87) in
     [SetTransformationsCall (coasterRadius, coasterThickness, coasterRadius) 0 0 0 (coasterX, stackBaseY + i * (coasterThickness + coasterGap), coasterZ),
      SetShaderColorCall shade (shade - 0.01) (shade - 0.04) 1.0,
      SetShaderTextureCall ''coaster'',
      SetTextureUVScaleCall 1.0 1.0,
      SetShaderMaterialCall ''lightWood'',
      DrawCall (CylinderMesh True True True)]) [0..numCoasters - 1])"

definition napkin_holder_calls :: "call list" where
  "napkin_holder_calls =
    [SetTransformationsCall (panelWidth, panelRectH, panelThk) 0 0 0 (nhX, nhBaseY + panelRectH / 2.0, frontZ),
     SetShaderColorCall 0.55 0.35 0.15 1.0,
     SetShaderTextureCall ''wood'',
     SetTextureUVScaleCall 1.0 1.0,
     SetShaderMaterialCall ''wood'',
     DrawCall BoxMesh,
     SetTransformationsCall (archRadius, panelThk, archRadius) (-90) 0 0 (nhX, nhBaseY + panelRectH, frontZ + panelThk / 2.0),
     SetShaderColorCall 0.55 0.35 0.15 1.0,
     SetShaderTextureCall ''woodie'',
     SetTextureUVScaleCall 1.0 1.0,
     SetShaderMaterialCall ''woodie'',
     DrawCall (CylinderMesh True True True),
     SetTransformationsCall (panelWidth, panelRectH, panelThk) 0 0 0 (nhX, nhBaseY + panelRectH / 2.0, backZ),
     SetShaderColorCall 0.55 0.35 0.15 1.0,
     SetShaderTextureCall ''wood'',
     SetTextureUVScaleCall 1.0 1.0,
     SetShaderMaterialCall ''wood'',
     DrawCall BoxMesh,
     SetTransformationsCall (archRadius, panelThk, archRadius) 90 0 0 (nhX, nhBaseY + panelRectH, backZ - panelThk / 2.0),
     SetShaderColorCall 0.55 0.35 0.15 1.0,
     SetShaderTextureCall ''wood'',
     SetTextureUVScaleCall 1.0 1.0,
     SetShaderMaterialCall ''wood'',
     DrawCall (CylinderMesh True True True),
     SetTransformationsCall (panelWidth, panelThk, totalDepth) 0 0 0 (nhX, nhBaseY + panelThk / 2.0, nhZ),
     SetShaderColorCall 0.52 0.32 0.13 1.0,
     SetShaderMaterialCall ''wood'',
     DrawCall BoxMesh]"

definition napkin_calls :: "call list" where
  "napkin_calls = concat (map (\<lambda>i::int.
     let heightVar = (if i mod 2 = 0 then 1.0 else 0.97) in
     let shade = 0.94 + (i mod 3) * 0.01 in
     [SetTransformationsCall (panelWidth * 1.17, napkinH * heightVar, napkinThk * 0.92) 0 0 0 (nhX, nhBaseY + (napkinH * heightVar) / 2.0 + panelThk, startZ + i * napkinThk),
      SetShaderColorCall shade shade (shade * 0.98) 1.0,
      SetShaderTextureCall ''napkin'',
      SetTextureUVScaleCall 1.0 1.0,
      SetShaderMaterialCall ''napkin'',
      DrawCall BoxMesh]) [0..napkinCount - 1])"

definition render_calls :: "call list" where
  "render_calls =
    background_wall_calls @ pantry_handle_calls @ fridge_surround_calls @
    cabinet_handle_calls @ fridge_body_calls @ fridge_feet_calls @
    right_wall_calls @ counter_calls @ pot_calls @
    trunk_calls @ branch_calls @ crown_calls @
    left_cluster_calls @ right_cluster_calls @ mug_calls @
    wire_holder_calls @ coaster_stack_calls @ napkin_holder_calls @
    napkin_calls"

text \<open>
  \<^verbatim>\<open>RenderScene\<close>: the lights, the culling flag saved and cleared, the calls, and the
  flag set again when it was set before.
\<close>

definition RenderScene :: "scene \<Rightarrow> fault + scene" where
  "RenderScene s =
    (case SetupSceneLights s of
       Inl f \<Rightarrow> Inl f
     | Inr s1 \<Rightarrow>
         (let cullEnabled = gl_cull_face s1;
              s2 = s1\<lparr>gl_cull_face := False\<rparr>
          in case perform_all render_calls s2 of
               Inl f \<Rightarrow> Inl f
             | Inr s3 \<Rightarrow> Inr (if cullEnabled then s3\<lparr>gl_cull_face := True\<rparr> else s3)))"

section \<open>Initial and example states\<close>

text \<open>
  The state the constructor \<^verbatim>\<open>SceneManager(pShaderManager)\<close> leaves, in a fresh OpenGL
  context: no texture loaded, no material defined, culling off.
\<close>

definition new_scene :: "ShaderManager option \<Rightarrow> scene" where
  "new_scene pShaderManager =
    \<lparr>m_pShaderManager = pShaderManager, m_textureIDs = [], m_objectMaterials = [],
     gl_cull_face = False, gl_active_texture = 0, gl_texture_2d = (\<lambda>_. 0),
     draws = [], cout = []\<rparr>"

text \<open>A scene with two registered textures, and one in flat-colour mode.\<close>

definition two_textures :: scene where
  "two_textures = (new_scene (Some Map.empty))
     \<lparr>m_textureIDs := [\<lparr>tex_ID = 1, tex_tag = ''pot''\<rparr>, \<lparr>tex_ID = 2, tex_tag = ''wood''\<rparr>]\<rparr>"

definition flat_coloured :: scene where
  "flat_coloured = SetShaderColor 0.20 0.17 0.14 1.0 (new_scene (Some Map.empty))"

section \<open>Ranges of colours and scales\<close>

text \<open>A colour channel lies in \<open>[0, 1]\<close>; a scale vector is positive in each component.\<close>

definition unit_range :: "real \<Rightarrow> bool" where
  "unit_range x \<longleftrightarrow> 0 \<le> x \<and> x \<le> 1"

definition colour_ok :: "vec3 \<Rightarrow> bool" where
  "colour_ok c = (case c of (r, g, b) \<Rightarrow> unit_range r \<and> unit_range g \<and> unit_range b)"

definition scale_ok :: "vec3 \<Rightarrow> bool" where
  "scale_ok v = (case v of (x, y, z) \<Rightarrow> 0 < x \<and> 0 < y \<and> 0 < z)"

fun call_ok :: "call \<Rightarrow> bool" where
  "call_ok (SetShaderColorCall r g b a) =
     (unit_range r \<and> unit_range g \<and> unit_range b \<and> unit_range a)"
| "call_ok (SetTransformationsCall sc x y z p) = scale_ok sc"
| "call_ok c = True"

text \<open>Of the light uniforms, the ambient, diffuse and specular ones are colours.\<close>

definition light_colour_name :: "string \<Rightarrow> bool" where
  "light_colour_name name \<longleftrightarrow>
     drop (length name - 8) name = ''.ambient'' \<or>
     drop (length name - 8) name = ''.diffuse'' \<or>
     drop (length name - 9) name = ''.specular''"

fun light_write_ok :: "string \<times> uniform \<Rightarrow> bool" where
  "light_write_ok (name, UVec3 v) = (light_colour_name name \<longrightarrow> colour_ok v)"
| "light_write_ok w = True"

section \<open>Trunk and branch geometry\<close>

text \<open>The position a \<^verbatim>\<open>SetTransformations\<close> call of the script places its mesh at.\<close>

fun call_position :: "call \<Rightarrow> vec3" where
  "call_position (SetTransformationsCall sc x y z p) = p"
| "call_position c = (0, 0, 0)"

text \<open>
  A trunk or branch segment is the cylinder mesh, whose axis runs from the origin to
  \<open>(0, 1, 0)\<close>; the tip of the segment is where the model matrix of its call takes the
  upper end of the axis.
\<close>

fun segment_tip :: "call \<Rightarrow> vec3" where
  "segment_tip (SetTransformationsCall sc x y z p) =
     (case mat_vec (modelView sc x y z p) (0, 1, 0, 1) of (tx, ty, tz, tw) \<Rightarrow> (tx, ty, tz))"
| "segment_tip c = (0, 0, 0)"

text \<open>
  The tip formula in the comment of the trunk block:
  \<^verbatim>\<open>tip = base + h * (-sin Z, cos Z)\<close>, \<open>Z\<close> in degrees, the depth unchanged.
\<close>

definition tip_rule :: "vec3 \<Rightarrow> real \<Rightarrow> real \<Rightarrow> vec3" where
  "tip_rule base h Z = (case base of (b1, b2, b3) \<Rightarrow>
     (b1 + h * (- sin (glm_radians Z)), b2 + h * cos (glm_radians Z), b3))"

text \<open>Two points agree within a tolerance in each coordinate.\<close>

definition close_to :: "real \<Rightarrow> vec3 \<Rightarrow> vec3 \<Rightarrow> bool" where
  "close_to tol p q = (case p of (px, py, pz) \<Rightarrow> case q of (qx, qy, qz) \<Rightarrow>
     \<bar>px - qx\<bar> \<le> tol \<and> \<bar>py - qy\<bar> \<le> tol \<and> \<bar>pz - qz\<bar> \<le> tol)"

section \<open>Draw requests of a call sequence\<close>

text \<open>The meshes a sequence of calls asks to be drawn, in order.\<close>

fun requested_mesh :: "call \<Rightarrow> mesh list" where
  "requested_mesh (DrawCall m) = [m]"
| "requested_mesh c = []"

definition requested_meshes :: "call list \<Rightarrow> mesh list" where
  "requested_meshes cs = concat (map requested_mesh cs)"

section \<open>Single precision at a quarter turn\<close>


text \<open>
  \<^verbatim>\<open>glm::radians\<close> multiplies by the literal \<^verbatim>\<open>0.01745329251994329576923690768489\<close>,
  cast to the argument type. For a \<^verbatim>\<open>float\<close> that is the nearest IEEE single, a multiple of
  \<open>2^-29\<close>.
\<close>

definition glm_radians_factor :: real where
  "glm_radians_factor = 0.01745329251994329576923690768489"

definition single_radians_factor :: real where
  "single_radians_factor = 9370165 / 2 ^ 29"


section \<open>Properties\<close>

lemma find_slot_from_miss:
  "tag \<notin> tex_tag ` set ts \<Longrightarrow> find_slot_from i ts tag = -1"
  by (induction ts arbitrary: i) auto

lemma find_id_from_miss:
  "tag \<notin> tex_tag ` set ts \<Longrightarrow> find_id_from ts tag = -1"
  by (induction ts) auto

lemma find_slot_from_hit:
  "tag \<in> tex_tag ` set ts \<Longrightarrow>
    \<exists>k<length ts. find_slot_from i ts tag = int (i + k) \<and> tex_tag (ts ! k) = tag
      \<and> (\<forall>j<k. tex_tag (ts ! j) \<noteq> tag) \<and> find_id_from ts tag = sint (tex_ID (ts ! k))"
proof (induction ts arbitrary: i)
  case Nil
  then show ?case by simp
next
  case (Cons t ts)
  show ?case
  proof (cases "tex_tag t = tag")
    case True
    then show ?thesis by (intro exI[of _ 0]) simp
  next
    case False
    with Cons.prems have "tag \<in> tex_tag ` set ts" by auto
    from Cons.IH[OF this, of "Suc i"] obtain k where k: "k < length ts"
      "find_slot_from (Suc i) ts tag = int (Suc i + k)" "tex_tag (ts ! k) = tag"
      "\<forall>j<k. tex_tag (ts ! j) \<noteq> tag" "find_id_from ts tag = sint (tex_ID (ts ! k))"
      by blast
    have "\<forall>j<Suc k. tex_tag ((t # ts) ! j) \<noteq> tag"
      using False k(4) by (auto simp: nth_Cons split: nat.splits)
    with k False show ?thesis by (intro exI[of _ "Suc k"]) simp
  qed
qed

lemma bind_from_below:
  "k < i \<Longrightarrow> gl_texture_2d (bind_from i ts s) k = gl_texture_2d s k"
  by (induction ts arbitrary: i s) auto

lemma bind_from_nth:
  "k < length ts \<Longrightarrow> gl_texture_2d (bind_from i ts s) (i + k) = tex_ID (ts ! k)"
proof (induction ts arbitrary: i s k)
  case Nil
  then show ?case by simp
next
  case (Cons t ts)
  show ?case
  proof (cases k)
    case 0
    then show ?thesis by (simp add: bind_from_below)
  next
    case (Suc k')
    with Cons.prems have "k' < length ts" by simp
    from Cons.IH[OF this, of "Suc i"] Suc show ?thesis by simp
  qed
qed

lemma bind_from_textures: "m_textureIDs (bind_from i ts s) = m_textureIDs s"
  by (induction ts arbitrary: i s) auto

lemma SetShaderMaterial_cases:
  "SetShaderMaterial t s = Inr s' \<Longrightarrow>
     m_textureIDs s' = m_textureIDs s \<and> m_objectMaterials s' = m_objectMaterials s \<and>
     gl_cull_face s' = gl_cull_face s \<and> draws s' = draws s \<and>
     gl_texture_2d s' = gl_texture_2d s \<and>
     (m_pShaderManager s' = None \<longleftrightarrow> m_pShaderManager s = None)"
  by (auto simp: SetShaderMaterial_def split: prod.splits bool.splits option.splits)

lemma perform_frame:
  "perform c s = Inr s' \<Longrightarrow>
     m_textureIDs s' = m_textureIDs s \<and> m_objectMaterials s' = m_objectMaterials s \<and>
     gl_cull_face s' = gl_cull_face s \<and>
     (m_pShaderManager s' = None \<longleftrightarrow> m_pShaderManager s = None) \<and>
     (\<exists>ds. draws s' = draws s @ ds \<and> (\<forall>d\<in>set ds. drawn_cull d = gl_cull_face s))"
proof (cases c)
  case (SetShaderMaterialCall t)
  assume "perform c s = Inr s'"
  with SetShaderMaterialCall have "SetShaderMaterial t s = Inr s'" by simp
  from SetShaderMaterial_cases[OF this] show ?thesis by simp
qed (auto simp: SetTransformations_def SetShaderColor_def SetShaderTexture_def
       SetTextureUVScale_def draw_mesh_def Let_def split: option.splits)

lemma perform_all_frame:
  "perform_all cs s = Inr s' \<Longrightarrow>
     m_textureIDs s' = m_textureIDs s \<and> m_objectMaterials s' = m_objectMaterials s \<and>
     gl_cull_face s' = gl_cull_face s \<and>
     (m_pShaderManager s' = None \<longleftrightarrow> m_pShaderManager s = None) \<and>
     (\<exists>ds. draws s' = draws s @ ds \<and> (\<forall>d\<in>set ds. drawn_cull d = gl_cull_face s))"
proof (induction cs arbitrary: s)
  case Nil
  then show ?case by simp
next
  case (Cons c cs)
  from Cons.prems obtain s1 where s1: "perform c s = Inr s1" "perform_all cs s1 = Inr s'"
    by (auto split: sum.splits)
  from perform_frame[OF s1(1)] obtain ds1 where f1:
    "m_textureIDs s1 = m_textureIDs s" "m_objectMaterials s1 = m_objectMaterials s"
    "gl_cull_face s1 = gl_cull_face s" "m_pShaderManager s1 = None \<longleftrightarrow> m_pShaderManager s = None"
    "draws s1 = draws s @ ds1" "\<forall>d\<in>set ds1. drawn_cull d = gl_cull_face s"
    by auto
  from Cons.IH[OF s1(2)] obtain ds2 where f2:
    "m_textureIDs s' = m_textureIDs s1" "m_objectMaterials s' = m_objectMaterials s1"
    "gl_cull_face s' = gl_cull_face s1" "m_pShaderManager s' = None \<longleftrightarrow> m_pShaderManager s1 = None"
    "draws s' = draws s1 @ ds2" "\<forall>d\<in>set ds2. drawn_cull d = gl_cull_face s1"
    by auto
  have "draws s' = draws s @ (ds1 @ ds2)" using f1 f2 by simp
  moreover have "\<forall>d\<in>set (ds1 @ ds2). drawn_cull d = gl_cull_face s" using f1 f2 by auto
  ultimately show ?case using f1 f2 by auto
qed

lemma perform_total:
  "m_pShaderManager s \<noteq> None \<Longrightarrow> \<exists>s'. perform c s = Inr s'"
  by (cases c) (auto simp: SetShaderMaterial_def split: prod.splits bool.splits option.splits)

lemma perform_all_total:
  "m_pShaderManager s \<noteq> None \<Longrightarrow> \<exists>s'. perform_all cs s = Inr s'"
proof (induction cs arbitrary: s)
  case Nil
  then show ?case by simp
next
  case (Cons c cs)
  from perform_total[OF Cons.prems] obtain s1 where s1: "perform c s = Inr s1" by blast
  with perform_frame[OF s1] Cons.prems have "m_pShaderManager s1 \<noteq> None" by simp
  from Cons.IH[OF this] s1 show ?case by simp
qed

lemma SetupSceneLights_frame:
  "SetupSceneLights s = Inr s' \<Longrightarrow>
     m_textureIDs s' = m_textureIDs s \<and> m_objectMaterials s' = m_objectMaterials s \<and>
     gl_cull_face s' = gl_cull_face s \<and> draws s' = draws s \<and> m_pShaderManager s' \<noteq> None"
  by (auto simp: SetupSceneLights_def split: option.splits)

lemma RenderScene_total:
  "m_pShaderManager s \<noteq> None \<Longrightarrow> \<exists>s'. RenderScene s = Inr s'"
proof -
  assume a: "m_pShaderManager s \<noteq> None"
  then obtain s1 where s1: "SetupSceneLights s = Inr s1"
    by (auto simp: SetupSceneLights_def)
  from SetupSceneLights_frame[OF s1] have "m_pShaderManager (s1\<lparr>gl_cull_face := False\<rparr>) \<noteq> None"
    by simp
  from perform_all_total[OF this] obtain s3 where
    "perform_all render_calls (s1\<lparr>gl_cull_face := False\<rparr>) = Inr s3" by blast
  with s1 show ?thesis by (simp add: RenderScene_def Let_def)
qed

lemma RenderScene_frame:
  assumes "RenderScene s = Inr s'"
  shows "m_textureIDs s' = m_textureIDs s \<and> m_objectMaterials s' = m_objectMaterials s \<and>
     gl_cull_face s' = gl_cull_face s \<and>
     (\<exists>ds. draws s' = draws s @ ds \<and> (\<forall>d\<in>set ds. \<not> drawn_cull d))"
proof -
  from assms obtain s1 s3 where s1: "SetupSceneLights s = Inr s1"
    and s3: "perform_all render_calls (s1\<lparr>gl_cull_face := False\<rparr>) = Inr s3"
    and s': "s' = (if gl_cull_face s1 then s3\<lparr>gl_cull_face := True\<rparr> else s3)"
    by (auto simp: RenderScene_def Let_def split: sum.splits)
  note f1 = SetupSceneLights_frame[OF s1]
  from perform_all_frame[OF s3] obtain ds where f3:
    "m_textureIDs s3 = m_textureIDs s1" "m_objectMaterials s3 = m_objectMaterials s1"
    "gl_cull_face s3 = False" "draws s3 = draws s1 @ ds" "\<forall>d\<in>set ds. \<not> drawn_cull d"
    by auto
  show ?thesis using f1 f3 s' by auto
qed

lemma perform_draws:
  "perform c s = Inr s' \<Longrightarrow>
     \<exists>ds. draws s' = draws s @ ds \<and> map drawn_mesh ds = requested_mesh c \<and>
       (\<forall>d\<in>set ds. drawn_cull d = gl_cull_face s)"
proof (cases c)
  case (SetShaderMaterialCall t)
  assume "perform c s = Inr s'"
  with SetShaderMaterialCall have "SetShaderMaterial t s = Inr s'" by simp
  from SetShaderMaterial_cases[OF this] SetShaderMaterialCall show ?thesis by simp
qed (auto simp: SetTransformations_def SetShaderColor_def SetShaderTexture_def
       SetTextureUVScale_def draw_mesh_def Let_def split: option.splits)

lemma perform_all_draws:
  "perform_all cs s = Inr s' \<Longrightarrow>
     \<exists>ds. draws s' = draws s @ ds \<and> map drawn_mesh ds = requested_meshes cs \<and>
       (\<forall>d\<in>set ds. drawn_cull d = gl_cull_face s)"
proof (induction cs arbitrary: s)
  case Nil
  then show ?case by (simp add: requested_meshes_def)
next
  case (Cons c cs)
  from Cons.prems obtain s1 where s1: "perform c s = Inr s1" "perform_all cs s1 = Inr s'"
    by (auto split: sum.splits)
  from perform_draws[OF s1(1)] obtain ds1 where f1:
    "draws s1 = draws s @ ds1" "map drawn_mesh ds1 = requested_mesh c"
    "\<forall>d\<in>set ds1. drawn_cull d = gl_cull_face s"
    by auto
  from perform_frame[OF s1(1)] have c1: "gl_cull_face s1 = gl_cull_face s" by simp
  from Cons.IH[OF s1(2)] obtain ds2 where f2:
    "draws s' = draws s1 @ ds2" "map drawn_mesh ds2 = requested_meshes cs"
    "\<forall>d\<in>set ds2. drawn_cull d = gl_cull_face s1"
    by auto
  have "draws s' = draws s @ (ds1 @ ds2)" using f1 f2 by simp
  moreover have "map drawn_mesh (ds1 @ ds2) = requested_meshes (c # cs)"
    using f1 f2 by (simp add: requested_meshes_def)
  moreover have "\<forall>d\<in>set (ds1 @ ds2). drawn_cull d = gl_cull_face s" using f1 f2 c1 by auto
  ultimately show ?case by blast
qed

lemma requested_meshes_append:
  "requested_meshes (xs @ ys) = requested_meshes xs @ requested_meshes ys"
  by (simp add: requested_meshes_def)

lemma render_calls_draw_count: "length (requested_meshes render_calls) = 115"
  by (simp add: render_calls_def requested_meshes_append)
     (simp add: requested_meshes_def background_wall_calls_def pantry_handle_calls_def
       fridge_surround_calls_def cabinet_handle_calls_def fridge_body_calls_def
       fridge_feet_calls_def right_wall_calls_def counter_calls_def pot_calls_def
       trunk_calls_def branch_calls_def crown_calls_def left_cluster_calls_def
       right_cluster_calls_def mug_calls_def wire_holder_calls_def coaster_stack_calls_def
       napkin_holder_calls_def napkin_calls_def numCoasters_def napkinCount_def
       Let_def upto.simps)

lemma RenderScene_draws:
  assumes "RenderScene s = Inr s'"
  shows "\<exists>ds. draws s' = draws s @ ds \<and> map drawn_mesh ds = requested_meshes render_calls \<and>
     (\<forall>d\<in>set ds. \<not> drawn_cull d)"
proof -
  from assms obtain s1 s3 where s1: "SetupSceneLights s = Inr s1"
    and s3: "perform_all render_calls (s1\<lparr>gl_cull_face := False\<rparr>) = Inr s3"
    and s': "s' = (if gl_cull_face s1 then s3\<lparr>gl_cull_face := True\<rparr> else s3)"
    by (auto simp: RenderScene_def Let_def split: sum.splits)
  note f1 = SetupSceneLights_frame[OF s1]
  from perform_all_draws[OF s3] obtain ds where f3:
    "draws s3 = draws s1 @ ds" "map drawn_mesh ds = requested_meshes render_calls"
    "\<forall>d\<in>set ds. \<not> drawn_cull d"
    by auto
  have "draws s' = draws s @ ds" using f1 f3 s' by auto
  with f3 show ?thesis by blast
qed

text \<open>
  C8: whenever \<^verbatim>\<open>RenderScene\<close> completes a pass, the culling flag is what it was before the
  pass, enabled or disabled; the pass has issued the 115 draw requests of its call sequence,
  in order, and every one of them was issued with culling disabled, also when culling was
  enabled before the pass. The pass completes whenever the shader manager is not null.
\<close>

theorem RenderScene_culling_restored:
  "(m_pShaderManager s \<noteq> None \<longrightarrow> (\<exists>s'. RenderScene s = Inr s')) \<and>
   (\<forall>s'. RenderScene s = Inr s' \<longrightarrow>
      gl_cull_face s' = gl_cull_face s \<and>
      (\<exists>ds. draws s' = draws s @ ds \<and>
         map drawn_mesh ds = requested_meshes render_calls \<and> length ds = 115 \<and>
         (\<forall>d\<in>set ds. \<not> drawn_cull d)))"
proof -
  have "gl_cull_face s' = gl_cull_face s \<and>
      (\<exists>ds. draws s' = draws s @ ds \<and>
         map drawn_mesh ds = requested_meshes render_calls \<and> length ds = 115 \<and>
         (\<forall>d\<in>set ds. \<not> drawn_cull d))" if r: "RenderScene s = Inr s'" for s'
  proof -
    from RenderScene_draws[OF r] obtain ds where ds: "draws s' = draws s @ ds"
      "map drawn_mesh ds = requested_meshes render_calls" "\<forall>d\<in>set ds. \<not> drawn_cull d"
      by blast
    from ds(2) have "length ds = length (requested_meshes render_calls)"
      by (metis length_map)
    with render_calls_draw_count have "length ds = 115" by simp
    with ds RenderScene_frame[OF r] show ?thesis by blast
  qed
  with RenderScene_total[of s] show ?thesis by blast
qed

theorem RenderScene_culling_restored_witness:
  "(\<exists>s'. RenderScene (new_scene (Some Map.empty)\<lparr>gl_cull_face := True\<rparr>) = Inr s' \<and>
      gl_cull_face s' \<and> length (draws s') = 115 \<and> (\<forall>d\<in>set (draws s'). \<not> drawn_cull d)) \<and>
   (\<exists>s'. RenderScene (new_scene (Some Map.empty)\<lparr>gl_cull_face := False\<rparr>) = Inr s' \<and>
      \<not> gl_cull_face s' \<and> length (draws s') = 115 \<and> (\<forall>d\<in>set (draws s'). \<not> drawn_cull d))"
proof -
  have t: "m_pShaderManager (new_scene (Some Map.empty)\<lparr>gl_cull_face := True\<rparr>) \<noteq> None"
    "gl_cull_face (new_scene (Some Map.empty)\<lparr>gl_cull_face := True\<rparr>)"
    "draws (new_scene (Some Map.empty)\<lparr>gl_cull_face := True\<rparr>) = []"
    and f: "m_pShaderManager (new_scene (Some Map.empty)\<lparr>gl_cull_face := False\<rparr>) \<noteq> None"
    "\<not> gl_cull_face (new_scene (Some Map.empty)\<lparr>gl_cull_face := False\<rparr>)"
    "draws (new_scene (Some Map.empty)\<lparr>gl_cull_face := False\<rparr>) = []"
    by (simp_all add: new_scene_def)
  from t RenderScene_culling_restored[of "new_scene (Some Map.empty)\<lparr>gl_cull_face := True\<rparr>"]
  have "\<exists>s'. RenderScene (new_scene (Some Map.empty)\<lparr>gl_cull_face := True\<rparr>) = Inr s' \<and>
      gl_cull_face s' \<and> length (draws s') = 115 \<and> (\<forall>d\<in>set (draws s'). \<not> drawn_cull d)"
    by (metis (no_types, lifting) append_Nil)
  moreover
  from f RenderScene_culling_restored[of "new_scene (Some Map.empty)\<lparr>gl_cull_face := False\<rparr>"]
  have "\<exists>s'. RenderScene (new_scene (Some Map.empty)\<lparr>gl_cull_face := False\<rparr>) = Inr s' \<and>
      \<not> gl_cull_face s' \<and> length (draws s') = 115 \<and> (\<forall>d\<in>set (draws s'). \<not> drawn_cull d)"
    by (metis (no_types, lifting) append_Nil)
  ultimately show ?thesis by blast
qed

text \<open>
  C10: with a null shader manager, \<^verbatim>\<open>SetTransformations\<close>, \<^verbatim>\<open>SetShaderColor\<close>,
  \<^verbatim>\<open>SetShaderTexture\<close> and \<^verbatim>\<open>SetTextureUVScale\<close> leave the state as it is, whereas
  \<^verbatim>\<open>SetShaderMaterial\<close> with a tag found in the material table, and \<^verbatim>\<open>SetupSceneLights\<close>,
  call through the null pointer.
\<close>

theorem null_shader_manager_guards:
  "m_pShaderManager s = None \<longrightarrow>
     SetTransformations scaleXYZ x y z positionXYZ s = s \<and>
     SetShaderColor r g b a s = s \<and>
     SetShaderTexture textureTag s = s \<and>
     SetTextureUVScale u v s = s \<and>
     (fst (FindMaterial s materialTag fresh_material) \<longrightarrow>
        SetShaderMaterial materialTag s = Inl NullShaderManager) \<and>
     SetupSceneLights s = Inl NullShaderManager"
  by (auto simp: SetTransformations_def SetShaderColor_def SetShaderTexture_def
      SetTextureUVScale_def SetShaderMaterial_def SetupSceneLights_def Let_def
      split: prod.splits bool.splits)

lemma find_material_in_append:
  "find_material_in (ms @ ms') t out =
     (if fst (find_material_in ms t out) then find_material_in ms t out
      else find_material_in ms' t out)"
  by (induction ms) auto

lemma fold_push_back: "m_objectMaterials (fold push_back ms s) = m_objectMaterials s @ ms"
  by (induction ms arbitrary: s) (auto simp: push_back_def)

lemma find_material_in_find:
  "find_material_in ms t out =
     (case find (\<lambda>m. mat_tag m = t) ms of Some m \<Rightarrow> (True, m) | None \<Rightarrow> (False, out))"
  by (induction ms) auto

lemma find_distinct:
  "distinct (map mat_tag ms) \<Longrightarrow> m \<in> set ms \<Longrightarrow> find (\<lambda>m'. mat_tag m' = mat_tag m) ms = Some m"
  by (induction ms) (auto simp: rev_image_eqI)

lemma fold_push_back_shader: "m_pShaderManager (fold push_back ms s) = m_pShaderManager s"
  by (induction ms arbitrary: s) (auto simp: push_back_def)

lemma DefineObjectMaterials_materials:
  "m_objectMaterials (DefineObjectMaterials s) = m_objectMaterials s @ scene_materials"
  by (simp add: DefineObjectMaterials_def fold_push_back)

lemma DefineObjectMaterials_shader:
  "m_pShaderManager (DefineObjectMaterials s) = m_pShaderManager s"
  by (simp add: DefineObjectMaterials_def fold_push_back_shader)

lemma scene_with_wood_lookup:
  "FindMaterial (DefineObjectMaterials (new_scene None)) ''wood'' fresh_material =
     (True, preset ''wood'' (0.6, 0.4, 0.2) (0.15, 0.1, 0.05) 8.0)"
  unfolding FindMaterial_def DefineObjectMaterials_materials
  by (simp add: new_scene_def scene_materials_def preset_def)

theorem null_shader_manager_guards_witness:
  "m_pShaderManager (DefineObjectMaterials (new_scene None)) = None \<and>
   fst (FindMaterial (DefineObjectMaterials (new_scene None)) ''wood'' fresh_material) \<and>
   SetShaderMaterial ''wood'' (DefineObjectMaterials (new_scene None)) = Inl NullShaderManager \<and>
   SetupSceneLights (DefineObjectMaterials (new_scene None)) = Inl NullShaderManager \<and>
   SetShaderTexture ''wall'' (DefineObjectMaterials (new_scene None)) =
     DefineObjectMaterials (new_scene None)"
proof -
  have n: "m_pShaderManager (DefineObjectMaterials (new_scene None)) = None"
    by (simp add: DefineObjectMaterials_shader new_scene_def)
  have w: "fst (FindMaterial (DefineObjectMaterials (new_scene None)) ''wood'' fresh_material)"
    by (simp add: scene_with_wood_lookup)
  from n w null_shader_manager_guards[of "DefineObjectMaterials (new_scene None)" _ _ _ _ _ _ _ _ _
      "''wall''" _ _ "''wood''"]
  show ?thesis by blast
qed

text \<open>
  C4, as stated, fails: with two presets pushed under the tag \<open>wood\<close>, \<^verbatim>\<open>FindMaterial\<close>
  does not return the one pushed last.
\<close>

theorem material_last_write_counterexample:
  "FindMaterial
     (push_back (preset ''wood'' (0.55, 0.35, 0.18) (0.2, 0.15, 0.08) 12.0)
       (push_back (preset ''wood'' (0.6, 0.4, 0.2) (0.15, 0.1, 0.05) 8.0) (new_scene None)))
     ''wood'' fresh_material
   \<noteq> (True, preset ''wood'' (0.55, 0.35, 0.18) (0.2, 0.15, 0.08) 12.0)"
  by (simp add: FindMaterial_def push_back_def new_scene_def preset_def)

text \<open>
  C4, amended: after any sequence of \<^verbatim>\<open>push_back\<close> calls, \<^verbatim>\<open>FindMaterial\<close> returns, with
  all three fields, the earliest preset in the table that carries the tag (the first write
  wins), and reports a miss, leaving its out-parameter alone, when there is none. When the
  tags of the table are distinct, every preset pushed is returned for its own tag.
\<close>

theorem material_first_write_wins:
  "FindMaterial (fold push_back ms s) t out =
     (case find (\<lambda>m. mat_tag m = t) (m_objectMaterials s @ ms) of
        Some m \<Rightarrow> (True, m) | None \<Rightarrow> (False, out)) \<and>
   (distinct (map mat_tag (m_objectMaterials s @ ms)) \<longrightarrow>
      (\<forall>m\<in>set ms. FindMaterial (fold push_back ms s) (mat_tag m) out = (True, m)))"
proof -
  have eq: "\<And>t. FindMaterial (fold push_back ms s) t out =
     (case find (\<lambda>m. mat_tag m = t) (m_objectMaterials s @ ms) of
        Some m \<Rightarrow> (True, m) | None \<Rightarrow> (False, out))"
    by (simp only: FindMaterial_def fold_push_back find_material_in_find)
  have "FindMaterial (fold push_back ms s) (mat_tag m) out = (True, m)"
    if d: "distinct (map mat_tag (m_objectMaterials s @ ms))" and m: "m \<in> set ms" for m
  proof -
    from m have "m \<in> set (m_objectMaterials s @ ms)" by simp
    from find_distinct[OF d this] show ?thesis by (simp add: eq)
  qed
  with eq show ?thesis by blast
qed

theorem material_first_write_wins_witness:
  "distinct (map mat_tag (m_objectMaterials (new_scene None) @ scene_materials)) \<and>
   preset ''wood'' (0.6, 0.4, 0.2) (0.15, 0.1, 0.05) 8.0 \<in> set scene_materials \<and>
   FindMaterial (DefineObjectMaterials (new_scene None)) ''wood'' fresh_material =
     (True, preset ''wood'' (0.6, 0.4, 0.2) (0.15, 0.1, 0.05) 8.0)"
proof -
  have d: "distinct (map mat_tag (m_objectMaterials (new_scene None) @ scene_materials))"
    by (simp add: new_scene_def scene_materials_def preset_def)
  have m: "preset ''wood'' (0.6, 0.4, 0.2) (0.15, 0.1, 0.05) 8.0 \<in> set scene_materials"
    by (simp add: scene_materials_def)
  have t: "mat_tag (preset ''wood'' (0.6, 0.4, 0.2) (0.15, 0.1, 0.05) 8.0) = ''wood''"
    by (simp add: preset_def)
  from material_first_write_wins[of scene_materials "new_scene None" "''wood''" fresh_material] d m t
  have "FindMaterial (fold push_back scene_materials (new_scene None)) ''wood'' fresh_material =
     (True, preset ''wood'' (0.6, 0.4, 0.2) (0.15, 0.1, 0.05) 8.0)"
    by (metis (no_types, lifting))
  with d m show ?thesis by (simp add: DefineObjectMaterials_def)
qed

text \<open>
  C6: \<^verbatim>\<open>CreateGLTexture\<close> returns \<^verbatim>\<open>false\<close> exactly when the image cannot be decoded or its
  channel count is neither 3 nor 4; it has then logged the reason and the registry is
  unchanged. When it returns \<^verbatim>\<open>true\<close>, exactly one slot, holding the new handle under the
  tag, has been appended; it does so for every decodable 3- or 4-channel image while the
  array has room.
\<close>

theorem CreateGLTexture_outcomes:
  "((\<exists>s'. CreateGLTexture capacity img textureID filename tag s = Inr (False, s')) \<longleftrightarrow>
      (img = None \<or> (\<exists>w h c. img = Some (w, h, c) \<and> c \<noteq> 3 \<and> c \<noteq> 4))) \<and>
   (\<forall>s'. CreateGLTexture capacity img textureID filename tag s = Inr (False, s') \<longrightarrow>
      m_textureIDs s' = m_textureIDs s \<and> m_loadedTextures s' = m_loadedTextures s \<and>
      (\<exists>ls l. cout s' = cout s @ ls @ [l] \<and>
         (l = CouldNotLoad filename \<or> (\<exists>c. l = ChannelsNotImplemented c)))) \<and>
   (\<forall>s'. CreateGLTexture capacity img textureID filename tag s = Inr (True, s') \<longrightarrow>
      m_textureIDs s' = m_textureIDs s @ [\<lparr>tex_ID = textureID, tex_tag = tag\<rparr>] \<and>
      m_loadedTextures s' = m_loadedTextures s + 1) \<and>
   ((\<exists>w h c. img = Some (w, h, c) \<and> (c = 3 \<or> c = 4)) \<and> length (m_textureIDs s) < capacity \<longrightarrow>
      (\<exists>s'. CreateGLTexture capacity img textureID filename tag s = Inr (True, s')))"
proof (cases img)
  case None
  then show ?thesis by (simp add: CreateGLTexture_def m_loadedTextures_def)
next
  case (Some whc)
  obtain w h c where whc: "whc = (w, h, c)" by (cases whc) auto
  show ?thesis
  proof (cases "c = 3 \<or> c = 4")
    case True
    with Some whc show ?thesis
      by (auto simp: CreateGLTexture_def m_loadedTextures_def Let_def)
  next
    case False
    have "\<exists>ls. cout s @ [LoadedImage filename w h c, ChannelsNotImplemented c] =
        cout s @ ls @ [ChannelsNotImplemented c]"
      by (intro exI[of _ "[LoadedImage filename w h c]"]) simp
    with False Some whc show ?thesis
      by (auto simp: CreateGLTexture_def m_loadedTextures_def Let_def)
  qed
qed

theorem CreateGLTexture_outcomes_witness:
  "(\<exists>s'. CreateGLTexture 16 (Some (64, 64, 3)) 1 ''textures/pot.jpg'' ''pot'' (new_scene None)
       = Inr (True, s') \<and> m_textureIDs s' = [\<lparr>tex_ID = 1, tex_tag = ''pot''\<rparr>]) \<and>
   (\<exists>s'. CreateGLTexture 16 None 1 ''textures/pot.jpg'' ''pot'' (new_scene None)
       = Inr (False, s') \<and> m_textureIDs s' = []) \<and>
   (\<exists>s'. CreateGLTexture 16 (Some (64, 64, 1)) 1 ''textures/pot.jpg'' ''pot'' (new_scene None)
       = Inr (False, s') \<and> m_textureIDs s' = [])"
proof -
  have e: "m_textureIDs (new_scene None) = []" by (simp add: new_scene_def)
  have "(\<exists>w h c. Some (64::int, 64::int, 3::int) = Some (w, h, c) \<and> (c = 3 \<or> c = 4)) \<and>
      length (m_textureIDs (new_scene None)) < 16" by (simp add: e)
  with CreateGLTexture_outcomes[of 16 "Some (64, 64, 3)" 1 "''textures/pot.jpg''" "''pot''"
      "new_scene None"] e
  have a: "\<exists>s'. CreateGLTexture 16 (Some (64, 64, 3)) 1 ''textures/pot.jpg'' ''pot'' (new_scene None)
       = Inr (True, s') \<and> m_textureIDs s' = [\<lparr>tex_ID = 1, tex_tag = ''pot''\<rparr>]"
    by (metis (no_types, lifting) append_Nil)
  from CreateGLTexture_outcomes[of 16 None 1 "''textures/pot.jpg''" "''pot''" "new_scene None"] e
  have b: "\<exists>s'. CreateGLTexture 16 None 1 ''textures/pot.jpg'' ''pot'' (new_scene None)
       = Inr (False, s') \<and> m_textureIDs s' = []"
    by (metis (no_types, lifting))
  have "\<exists>w h c. Some (64::int, 64::int, 1::int) = Some (w, h, c) \<and> c \<noteq> 3 \<and> c \<noteq> 4" by simp
  with CreateGLTexture_outcomes[of 16 "Some (64, 64, 1)" 1 "''textures/pot.jpg''" "''pot''"
      "new_scene None"] e
  have c: "\<exists>s'. CreateGLTexture 16 (Some (64, 64, 1)) 1 ''textures/pot.jpg'' ''pot'' (new_scene None)
       = Inr (False, s') \<and> m_textureIDs s' = []"
    by (metis (no_types, lifting))
  from a b c show ?thesis by blast
qed

text \<open>
  C7: for every registered tag \<^verbatim>\<open>FindTextureSlot\<close> returns the index of its (first)
  registration and \<^verbatim>\<open>FindTextureID\<close> the handle stored there; distinct registered tags get
  distinct slots; \<^verbatim>\<open>BindGLTextures\<close> binds the texture of slot \<open>k\<close> on unit \<open>k\<close>; for a tag
  never registered both lookups return \<open>-1\<close>; and the lookups give the same answers after
  \<^verbatim>\<open>BindGLTextures\<close> and after a render pass.
\<close>

theorem texture_lookup_slots:
  "(\<forall>t\<in>tex_tag ` set (m_textureIDs s).
      \<exists>k<length (m_textureIDs s).
        FindTextureSlot s t = int k \<and> tex_tag (m_textureIDs s ! k) = t \<and>
        (\<forall>j<k. tex_tag (m_textureIDs s ! j) \<noteq> t) \<and>
        FindTextureID s t = sint (tex_ID (m_textureIDs s ! k))) \<and>
   (\<forall>t\<in>tex_tag ` set (m_textureIDs s). \<forall>t'\<in>tex_tag ` set (m_textureIDs s).
      t \<noteq> t' \<longrightarrow> FindTextureSlot s t \<noteq> FindTextureSlot s t') \<and>
   (\<forall>k<length (m_textureIDs s).
      gl_texture_2d (BindGLTextures s) k = tex_ID (m_textureIDs s ! k)) \<and>
   (\<forall>t. t \<notin> tex_tag ` set (m_textureIDs s) \<longrightarrow>
      FindTextureSlot s t = -1 \<and> FindTextureID s t = -1) \<and>
   (\<forall>t. FindTextureID (BindGLTextures s) t = FindTextureID s t \<and>
      (\<forall>s'. RenderScene s = Inr s' \<longrightarrow>
         FindTextureID s' t = FindTextureID s t \<and> FindTextureSlot s' t = FindTextureSlot s t))"
proof -
  have hit: "\<exists>k<length (m_textureIDs s).
        FindTextureSlot s t = int k \<and> tex_tag (m_textureIDs s ! k) = t \<and>
        (\<forall>j<k. tex_tag (m_textureIDs s ! j) \<noteq> t) \<and>
        FindTextureID s t = sint (tex_ID (m_textureIDs s ! k))"
    if "t \<in> tex_tag ` set (m_textureIDs s)" for t
    using find_slot_from_hit[OF that, of 0] by (simp add: FindTextureSlot_def FindTextureID_def)
  have apart: "FindTextureSlot s t \<noteq> FindTextureSlot s t'"
    if t: "t \<in> tex_tag ` set (m_textureIDs s)" and t': "t' \<in> tex_tag ` set (m_textureIDs s)"
      and ne: "t \<noteq> t'" for t t'
  proof
    assume eq: "FindTextureSlot s t = FindTextureSlot s t'"
    from hit[OF t] obtain k where k: "FindTextureSlot s t = int k" "tex_tag (m_textureIDs s ! k) = t"
      by blast
    from hit[OF t'] obtain k' where k': "FindTextureSlot s t' = int k'"
      "tex_tag (m_textureIDs s ! k') = t'" by blast
    from eq k(1) k'(1) have "k = k'" by simp
    with k(2) k'(2) ne show False by simp
  qed
  have bound: "gl_texture_2d (BindGLTextures s) k = tex_ID (m_textureIDs s ! k)"
    if "k < length (m_textureIDs s)" for k
    using bind_from_nth[OF that, of 0 s] by (simp add: BindGLTextures_def)
  have miss: "FindTextureSlot s t = -1 \<and> FindTextureID s t = -1"
    if "t \<notin> tex_tag ` set (m_textureIDs s)" for t
    using that by (simp add: FindTextureSlot_def FindTextureID_def find_slot_from_miss find_id_from_miss)
  have stable: "FindTextureID (BindGLTextures s) t = FindTextureID s t \<and>
      (\<forall>s'. RenderScene s = Inr s' \<longrightarrow>
         FindTextureID s' t = FindTextureID s t \<and> FindTextureSlot s' t = FindTextureSlot s t)" for t
    using RenderScene_frame[of s]
    by (auto simp: FindTextureID_def FindTextureSlot_def BindGLTextures_def bind_from_textures)
  from hit apart bound miss stable show ?thesis by blast
qed

theorem texture_lookup_slots_witness:
  "FindTextureSlot two_textures ''pot'' \<noteq> FindTextureSlot two_textures ''wood'' \<and>
   gl_texture_2d (BindGLTextures two_textures) 1 = 2 \<and>
   FindTextureSlot two_textures ''brick'' = -1 \<and> FindTextureID two_textures ''brick'' = -1 \<and>
   (\<exists>s'. RenderScene two_textures = Inr s' \<and>
      FindTextureID s' ''wood'' = FindTextureID two_textures ''wood'')"
proof -
  have tags: "tex_tag ` set (m_textureIDs two_textures) = {''pot'', ''wood''}"
    by (simp add: two_textures_def new_scene_def)
  have len: "length (m_textureIDs two_textures) = 2" and snd: "tex_ID (m_textureIDs two_textures ! 1) = 2"
    by (simp_all add: two_textures_def new_scene_def)
  have "m_pShaderManager two_textures \<noteq> None" by (simp add: two_textures_def new_scene_def)
  from RenderScene_total[OF this] obtain s' where s': "RenderScene two_textures = Inr s'" by blast
  note main = texture_lookup_slots[of two_textures]
  have a: "FindTextureSlot two_textures ''pot'' \<noteq> FindTextureSlot two_textures ''wood''"
    using main tags by auto
  have b: "gl_texture_2d (BindGLTextures two_textures) 1 = 2"
    using main len snd by auto
  have "''brick'' \<notin> tex_tag ` set (m_textureIDs two_textures)" by (simp add: tags)
  with main have c: "FindTextureSlot two_textures ''brick'' = -1 \<and> FindTextureID two_textures ''brick'' = -1"
    by blast
  from main s' have d: "FindTextureID s' ''wood'' = FindTextureID two_textures ''wood''" by blast
  from a b c d s' show ?thesis by blast
qed

lemma SetShaderMaterial_miss:
  "\<not> fst (FindMaterial s materialTag fresh_material) \<Longrightarrow> SetShaderMaterial materialTag s = Inr s"
  by (auto simp: SetShaderMaterial_def split: prod.splits bool.splits)

text \<open>
  C5: \<^verbatim>\<open>SetShaderMaterial\<close> with an undefined tag leaves the state alone (lemma
  \<open>SetShaderMaterial_miss\<close>), but \<^verbatim>\<open>SetShaderTexture\<close> with an unregistered tag does not: in
  a scene in flat-colour mode it switches \<open>bUseTexture\<close> on and writes the sentinel \<open>-1\<close> to
  the sampler uniform.
\<close>

theorem SetShaderTexture_miss_changes_state:
  "FindTextureSlot flat_coloured ''brick'' = -1 \<and>
   m_pShaderManager flat_coloured =
     Some [g_UseTextureName \<mapsto> UInt 0, g_ColorValueName \<mapsto> UVec4 (0.20, 0.17, 0.14, 1.0)] \<and>
   m_pShaderManager (SetShaderTexture ''brick'' flat_coloured) =
     Some [g_UseTextureName \<mapsto> UInt 1, g_ColorValueName \<mapsto> UVec4 (0.20, 0.17, 0.14, 1.0),
           g_TextureValueName \<mapsto> USampler2D (-1)] \<and>
   SetShaderTexture ''brick'' flat_coloured \<noteq> flat_coloured"
proof -
  have slot: "FindTextureSlot flat_coloured ''brick'' = -1"
    by (simp add: flat_coloured_def SetShaderColor_def new_scene_def FindTextureSlot_def)
  have before: "m_pShaderManager flat_coloured =
     Some [g_UseTextureName \<mapsto> UInt 0, g_ColorValueName \<mapsto> UVec4 (0.20, 0.17, 0.14, 1.0)]"
    by (simp add: flat_coloured_def SetShaderColor_def new_scene_def setIntValue_def setVec4Value_def)
  have after: "m_pShaderManager (SetShaderTexture ''brick'' flat_coloured) =
     Some [g_UseTextureName \<mapsto> UInt 1, g_ColorValueName \<mapsto> UVec4 (0.20, 0.17, 0.14, 1.0),
           g_TextureValueName \<mapsto> USampler2D (-1)]"
    by (simp add: SetShaderTexture_def before slot setIntValue_def setSampler2DValue_def
        g_UseTextureName_def g_ColorValueName_def g_TextureValueName_def fun_upd_twist)
  have "m_pShaderManager (SetShaderTexture ''brick'' flat_coloured) \<noteq> m_pShaderManager flat_coloured"
  proof
    assume "m_pShaderManager (SetShaderTexture ''brick'' flat_coloured) = m_pShaderManager flat_coloured"
    with before after have "[g_UseTextureName \<mapsto> UInt 1, g_ColorValueName \<mapsto> UVec4 (0.20, 0.17, 0.14, 1.0),
           g_TextureValueName \<mapsto> USampler2D (-1)] g_TextureValueName =
        [g_UseTextureName \<mapsto> UInt 0, g_ColorValueName \<mapsto> UVec4 (0.20, 0.17, 0.14, 1.0)] g_TextureValueName"
      by simp
    then show False
      by (simp add: g_UseTextureName_def g_ColorValueName_def g_TextureValueName_def)
  qed
  then have "SetShaderTexture ''brick'' flat_coloured \<noteq> flat_coloured" by auto
  with slot before after show ?thesis by blast
qed

lemmas ok_simps = unit_range_def colour_ok_def scale_ok_def scene_consts Let_def upto.simps

lemma ok_background_wall: "list_all call_ok background_wall_calls"
  by (simp add: background_wall_calls_def ok_simps)
lemma ok_pantry_handle: "list_all call_ok pantry_handle_calls"
  by (simp add: pantry_handle_calls_def ok_simps)
lemma ok_fridge_surround: "list_all call_ok fridge_surround_calls"
  by (simp add: fridge_surround_calls_def ok_simps)
lemma ok_cabinet_handle: "list_all call_ok cabinet_handle_calls"
  by (simp add: cabinet_handle_calls_def ok_simps)
lemma ok_fridge_body: "list_all call_ok fridge_body_calls"
  by (simp add: fridge_body_calls_def ok_simps)
lemma ok_fridge_feet: "list_all call_ok fridge_feet_calls"
  by (simp add: fridge_feet_calls_def ok_simps)
lemma ok_right_wall: "list_all call_ok right_wall_calls"
  by (simp add: right_wall_calls_def ok_simps)
lemma ok_counter: "list_all call_ok counter_calls"
  by (simp add: counter_calls_def ok_simps)
lemma ok_pot: "list_all call_ok pot_calls"
  by (simp add: pot_calls_def ok_simps)
lemma ok_trunk: "list_all call_ok trunk_calls"
  by (simp add: trunk_calls_def ok_simps)
lemma ok_branch: "list_all call_ok branch_calls"
  by (simp add: branch_calls_def ok_simps)
lemma ok_crown: "list_all call_ok crown_calls"
  by (simp add: crown_calls_def ok_simps)
lemma ok_left_cluster: "list_all call_ok left_cluster_calls"
  by (simp add: left_cluster_calls_def ok_simps)
lemma ok_right_cluster: "list_all call_ok right_cluster_calls"
  by (simp add: right_cluster_calls_def ok_simps)
lemma ok_mug: "list_all call_ok mug_calls"
  by (simp add: mug_calls_def ok_simps)
lemma ok_wire_holder: "list_all call_ok wire_holder_calls"
  by (simp add: wire_holder_calls_def ok_simps)
lemma ok_coaster_stack: "list_all call_ok coaster_stack_calls"
  by (simp add: coaster_stack_calls_def ok_simps)
lemma ok_napkin_holder: "list_all call_ok napkin_holder_calls"
  by (simp add: napkin_holder_calls_def ok_simps)
lemma ok_napkin: "list_all call_ok napkin_calls"
  by (simp add: napkin_calls_def ok_simps)

lemma ok_render_calls: "list_all call_ok render_calls"
  unfolding render_calls_def list_all_append
  by (intro conjI ok_background_wall ok_pantry_handle ok_fridge_surround ok_cabinet_handle
      ok_fridge_body ok_fridge_feet ok_right_wall ok_counter ok_pot ok_trunk ok_branch
      ok_crown ok_left_cluster ok_right_cluster ok_mug ok_wire_holder ok_coaster_stack
      ok_napkin_holder ok_napkin)

lemma ok_materials:
  "list_all (\<lambda>m. colour_ok (diffuseColor m) \<and> colour_ok (specularColor m)) scene_materials"
  by (simp add: scene_materials_def preset_def unit_range_def colour_ok_def)

lemma ok_lights: "list_all light_write_ok light_writes"
  by (simp add: light_writes_def light_colour_name_def unit_range_def colour_ok_def
      g_UseLightingName_def)

lemma mat_vec_mul: "mat_vec (mat_mul a b) v = mat_vec a (mat_vec b v)"
  by (simp add: mat_vec_def mat_mul_def transpose4_def dot4_def algebra_simps split: prod.splits)

lemma mat_mul_assoc: "mat_mul (mat_mul a b) c = mat_mul a (mat_mul b c)"
  by (simp add: mat_mul_def transpose4_def dot4_def algebra_simps split: prod.splits)

lemma glm_rotate_Z:
  "glm_rotate a (0, 0, 1) =
     ((cos a, - sin a, 0, 0), (sin a, cos a, 0, 0), (0, 0, 1, 0), (0, 0, 0, 1))"
  by (simp add: glm_rotate_def glm_normalize_def Let_def)



lemma glm_rotate_zero: "glm_rotate 0 v = identity4"
  by (simp add: glm_rotate_def identity4_def Let_def split: prod.splits)



lemma modelView_nested:
  "modelView scaleXYZ x y z positionXYZ =
     mat_mul (glm_translate positionXYZ)
       (mat_mul (glm_rotate (glm_radians z) (0, 0, 1))
         (mat_mul (glm_rotate (glm_radians y) (0, 1, 0))
           (mat_mul (glm_rotate (glm_radians x) (1, 0, 0)) (glm_scale scaleXYZ))))"
  by (simp only: modelView_def mat_mul_assoc)

lemma modelView_apply:
  "mat_vec (modelView scaleXYZ x y z positionXYZ) v =
     mat_vec (glm_translate positionXYZ)
       (mat_vec (glm_rotate (glm_radians z) (0, 0, 1))
         (mat_vec (glm_rotate (glm_radians y) (0, 1, 0))
           (mat_vec (glm_rotate (glm_radians x) (1, 0, 0)) (mat_vec (glm_scale scaleXYZ) v))))"
  by (simp only: modelView_nested mat_vec_mul)

lemma mat_vec_identity: "mat_vec identity4 v = v"
  by (simp add: mat_vec_def dot4_def identity4_def split: prod.splits)

lemma single_radians_factor_nearest:
  "\<bar>single_radians_factor - glm_radians_factor\<bar> \<le> 1 / 2 ^ 30"
  "1 / 2 ^ 6 \<le> single_radians_factor" "single_radians_factor < 1 / 2 ^ 5"
  "1 \<le> 90 * single_radians_factor" "90 * single_radians_factor < 2"
  by (simp_all add: single_radians_factor_def glm_radians_factor_def)


















text \<open>
  C9: every diffuse and specular component of the material presets, every channel of every
  flat colour set in \<^verbatim>\<open>RenderScene\<close>, and every light colour lies in \<open>[0, 1]\<close>, and every scale
  vector passed to \<^verbatim>\<open>SetTransformations\<close> in \<^verbatim>\<open>RenderScene\<close> is positive in all three
  components.
\<close>

theorem colours_and_scales_in_range:
  "(\<forall>m\<in>set scene_materials. colour_ok (diffuseColor m) \<and> colour_ok (specularColor m)) \<and>
   (\<forall>r g b a. SetShaderColorCall r g b a \<in> set render_calls \<longrightarrow>
      unit_range r \<and> unit_range g \<and> unit_range b \<and> unit_range a) \<and>
   (\<forall>sc x y z p. SetTransformationsCall sc x y z p \<in> set render_calls \<longrightarrow> scale_ok sc) \<and>
   (\<forall>name v. (name, UVec3 v) \<in> set light_writes \<and> light_colour_name name \<longrightarrow> colour_ok v) \<and>
   m_objectMaterials (DefineObjectMaterials s) = m_objectMaterials s @ scene_materials"
proof -
  have calls: "\<forall>c\<in>set render_calls. call_ok c"
    using ok_render_calls by (simp add: list_all_iff)
  have lights: "\<forall>w\<in>set light_writes. light_write_ok w"
    using ok_lights by (simp add: list_all_iff)
  have "\<forall>m\<in>set scene_materials. colour_ok (diffuseColor m) \<and> colour_ok (specularColor m)"
    using ok_materials by (simp add: list_all_iff)
  moreover have "\<forall>r g b a. SetShaderColorCall r g b a \<in> set render_calls \<longrightarrow>
      unit_range r \<and> unit_range g \<and> unit_range b \<and> unit_range a"
    using calls by fastforce
  moreover have "\<forall>sc x y z p. SetTransformationsCall sc x y z p \<in> set render_calls \<longrightarrow> scale_ok sc"
    using calls by fastforce
  moreover have "\<forall>name v. (name, UVec3 v) \<in> set light_writes \<and> light_colour_name name \<longrightarrow> colour_ok v"
    using lights by fastforce
  ultimately show ?thesis by (simp add: DefineObjectMaterials_materials)
qed

theorem colours_and_scales_in_range_witness:
  "SetShaderColorCall 0.16 0.11 0.07 1.0 \<in> set render_calls \<and>
   unit_range 0.16 \<and> unit_range 0.11 \<and> unit_range 0.07 \<and> unit_range 1.0 \<and>
   SetTransformationsCall (wallW, wallH, 0.3) 0 0 0 (0.0, floorY + wallH * 0.5, bgZ) \<in> set render_calls \<and>
   scale_ok (wallW, wallH, 0.3) \<and>
   preset ''wall'' (0.95, 0.95, 0.90) (0.02, 0.02, 0.02) 1.0 \<in> set scene_materials \<and>
   colour_ok (diffuseColor (preset ''wall'' (0.95, 0.95, 0.90) (0.02, 0.02, 0.02) 1.0)) \<and>
   (''pointLights[1].diffuse'', UVec3 (0.18, 0.21, 0.26)) \<in> set light_writes \<and>
   light_colour_name ''pointLights[1].diffuse'' \<and> colour_ok (0.18, 0.21, 0.26)"
proof -
  have c: "SetShaderColorCall 0.16 0.11 0.07 1.0 \<in> set render_calls"
    and t: "SetTransformationsCall (wallW, wallH, 0.3) 0 0 0 (0.0, floorY + wallH * 0.5, bgZ)
      \<in> set render_calls"
    by (simp_all add: render_calls_def background_wall_calls_def)
  have m: "preset ''wall'' (0.95, 0.95, 0.90) (0.02, 0.02, 0.02) 1.0 \<in> set scene_materials"
    by (simp add: scene_materials_def)
  have l: "(''pointLights[1].diffuse'', UVec3 (0.18, 0.21, 0.26)) \<in> set light_writes"
    by (simp add: light_writes_def)
  have n: "light_colour_name ''pointLights[1].diffuse''"
    by (simp add: light_colour_name_def)
  from c t m l n colours_and_scales_in_range show ?thesis by blast
qed

subsection \<open>Sines and cosines of the trunk and branch angles\<close>

lemma cubic_mono:
  fixes a c :: real
  assumes a: "1/2 \<le> a" and c: "1/2 \<le> c" and le: "c \<le> a"
  shows "4 * c^3 - 3 * c \<le> 4 * a^3 - 3 * a"
proof -
  have aa: "(1/2) * (1/2) \<le> a * a" using a by (intro mult_mono) auto
  have ac: "(1/2) * (1/2) \<le> a * c" using a c by (intro mult_mono) auto
  have cc: "(1/2) * (1/2) \<le> c * c" using c by (intro mult_mono) auto
  have "0 \<le> 4 * (a * a + a * c + c * c) - 3" using aa ac cc by simp
  with le have "0 \<le> (a - c) * (4 * (a * a + a * c + c * c) - 3)"
    by (intro mult_nonneg_nonneg) auto
  also have "\<dots> = (4 * a^3 - 3 * a) - (4 * c^3 - 3 * c)"
    by (simp add: algebra_simps power3_eq_cube)
  finally show ?thesis by simp
qed

lemma cos_20_cubic: "4 * cos (pi / 9) ^ 3 - 3 * cos (pi / 9) = 1 / 2"
proof -
  have "cos (3 * (pi / 9)) = 4 * cos (pi / 9) ^ 3 - 3 * cos (pi / 9)"
    by (rule cos_treble_cos)
  moreover have "3 * (pi / 9) = pi / 3" by simp
  ultimately show ?thesis by (simp add: cos_60)
qed

lemma cos_20_ge_half: "1 / 2 \<le> cos (pi / 9)"
proof -
  have "cos (pi / 3) \<le> cos (pi / 9)"
    by (rule cos_monotone_0_pi_le) (simp_all add: pi_ge_zero)
  then show ?thesis by (simp add: cos_60)
qed

lemma cos_20_bounds: "(9396 / 10000) < cos (pi / 9)" "cos (pi / 9) < (9397 / 10000)"
proof -
  show "(9396 / 10000) < cos (pi / 9)"
  proof (rule ccontr)
    assume "\<not> (9396 / 10000) < cos (pi / 9)"
    then have "cos (pi / 9) \<le> (9396 / 10000)" by simp
    from cubic_mono[OF _ cos_20_ge_half this]
    have "1 / 2 \<le> 4 * (9396 / 10000 :: real) ^ 3 - 3 * (9396 / 10000)" by (simp add: cos_20_cubic)
    then show False by (simp add: power3_eq_cube)
  qed
  show "cos (pi / 9) < (9397 / 10000)"
  proof (rule ccontr)
    assume "\<not> cos (pi / 9) < (9397 / 10000)"
    then have "(9397 / 10000) \<le> cos (pi / 9)" by simp
    from cubic_mono[OF cos_20_ge_half _ this]
    have "4 * (9397 / 10000 :: real) ^ 3 - 3 * (9397 / 10000) \<le> 1 / 2" by (simp add: cos_20_cubic)
    then show False by (simp add: power3_eq_cube)
  qed
qed

lemma sin_20_bounds: "(3419 / 10000) < sin (pi / 9)" "sin (pi / 9) < (3423 / 10000)"
proof -
  have pos: "0 < sin (pi / 9)" by (rule sin_gt_zero) (simp_all add: pi_gt_zero)
  have sq: "(sin (pi / 9))\<^sup>2 = 1 - (cos (pi / 9))\<^sup>2" by (simp add: sin_squared_eq)
  have cpos: "0 < cos (pi / 9)" using cos_20_bounds(1) by simp
  have lo: "(9396 / 10000 :: real)\<^sup>2 < (cos (pi / 9))\<^sup>2"
    using cos_20_bounds(1) by (intro power_strict_mono) auto
  have hi: "(cos (pi / 9))\<^sup>2 < (9397 / 10000 :: real)\<^sup>2"
    using cos_20_bounds(2) cpos by (intro power_strict_mono) auto
  have n1: "(9397 / 10000 :: real)\<^sup>2 = (88303609 / 100000000)" "(9396 / 10000 :: real)\<^sup>2 = (88284816 / 100000000)"
    "(3419 / 10000 :: real)\<^sup>2 = (11689561 / 100000000)" "(3423 / 10000 :: real)\<^sup>2 = (11716929 / 100000000)"
    by (simp_all add: power2_eq_square)
  have "(3419 / 10000 :: real)\<^sup>2 < (sin (pi / 9))\<^sup>2" using hi sq n1 by linarith
  then show "(3419 / 10000) < sin (pi / 9)" using pos by (intro power2_less_imp_less[of "(3419 / 10000)"]) auto
  have "(sin (pi / 9))\<^sup>2 < (3423 / 10000 :: real)\<^sup>2" using lo sq n1 by linarith
  then show "sin (pi / 9) < (3423 / 10000)" by (intro power2_less_imp_less[of _ "(3423 / 10000)"]) auto
qed

lemma sqrt3_bounds: "(1732 / 1000) < sqrt 3" "sqrt 3 < (17321 / 10000)"
proof -
  show "(1732 / 1000) < sqrt 3" by (rule real_less_rsqrt) (simp add: power2_eq_square)
  show "sqrt 3 < (17321 / 10000)" by (rule real_less_lsqrt) (simp_all add: power2_eq_square)
qed

lemma cos_15_sq: "(cos (pi / 12))\<^sup>2 = (2 + sqrt 3) / 4"
proof -
  have "cos (2 * (pi / 12)) = 2 * (cos (pi / 12))\<^sup>2 - 1" by (rule cos_double_cos)
  moreover have "2 * (pi / 12) = pi / 6" by simp
  ultimately show ?thesis by (simp add: cos_30 field_simps)
qed

lemma sin_15_sq: "(sin (pi / 12))\<^sup>2 = (2 - sqrt 3) / 4"
  using cos_15_sq by (simp add: sin_squared_eq field_simps)

lemma cos_15_bounds: "(9659 / 10000) < cos (pi / 12)" "cos (pi / 12) < (966 / 1000)"
proof -
  have pos: "0 < cos (pi / 12)" by (rule cos_gt_zero) (simp_all add: pi_gt_zero)
  have n: "(9659 / 10000 :: real)\<^sup>2 = (93296281 / 100000000)" "(966 / 1000 :: real)\<^sup>2 = (933156 / 1000000)"
    by (simp_all add: power2_eq_square)
  have "(9659 / 10000 :: real)\<^sup>2 < (cos (pi / 12))\<^sup>2"
    using sqrt3_bounds(1) cos_15_sq n by argo
  then show "(9659 / 10000) < cos (pi / 12)" using pos by (intro power2_less_imp_less[of "(9659 / 10000)"]) auto
  have "(cos (pi / 12))\<^sup>2 < (966 / 1000 :: real)\<^sup>2"
    using sqrt3_bounds(2) cos_15_sq n by argo
  then show "cos (pi / 12) < (966 / 1000)" by (intro power2_less_imp_less[of _ "(966 / 1000)"]) auto
qed

lemma sin_15_bounds: "(2587 / 10000) < sin (pi / 12)" "sin (pi / 12) < (2589 / 10000)"
proof -
  have pos: "0 < sin (pi / 12)" by (rule sin_gt_zero) (simp_all add: pi_gt_zero)
  have n: "(2587 / 10000 :: real)\<^sup>2 = (6692569 / 100000000)" "(2589 / 10000 :: real)\<^sup>2 = (6702921 / 100000000)"
    by (simp_all add: power2_eq_square)
  have "(2587 / 10000 :: real)\<^sup>2 < (sin (pi / 12))\<^sup>2"
    using sqrt3_bounds(2) sin_15_sq n by argo
  then show "(2587 / 10000) < sin (pi / 12)" using pos by (intro power2_less_imp_less[of "(2587 / 10000)"]) auto
  have "(sin (pi / 12))\<^sup>2 < (2589 / 10000 :: real)\<^sup>2"
    using sqrt3_bounds(1) sin_15_sq n by argo
  then show "sin (pi / 12) < (2589 / 10000)" by (intro power2_less_imp_less[of _ "(2589 / 10000)"]) auto
qed

lemma sin_taylor:
  fixes x :: real
  assumes "0 \<le> x"
  shows "x - x^3 / 6 + x^5 / 120 - x^7 / 5040 \<le> sin x"
    and "sin x \<le> x - x^3 / 6 + x^5 / 120 + x^7 / 5040"
proof -
  have coeff: "sin_coeff (Suc 0) = 1" "sin_coeff 2 = 0" "sin_coeff 3 = - 1 / 6" "sin_coeff 4 = 0"
    "sin_coeff 5 = 1 / 120" "sin_coeff 6 = 0"
    by (simp_all add: sin_coeff_def fact_numeral)
  have "{..<7::nat} = {0, 1, 2, 3, 4, 5, 6}" by auto
  then have sum: "(\<Sum>m<7. sin_coeff m * x ^ m) = x - x^3 / 6 + x^5 / 120"
    by (simp add: coeff)
  have "\<bar>sin x - (\<Sum>m<7. sin_coeff m * x ^ m)\<bar> \<le> inverse (fact 7) * \<bar>x\<bar> ^ 7"
    by (rule Maclaurin_sin_bound)
  moreover have "inverse (fact 7) * \<bar>x\<bar> ^ 7 = x^7 / 5040"
    using assms by (simp add: fact_numeral field_simps)
  ultimately have b: "\<bar>sin x - (x - x^3 / 6 + x^5 / 120)\<bar> \<le> x^7 / 5040"
    by (simp only: sum)
  from b show "x - x^3 / 6 + x^5 / 120 - x^7 / 5040 \<le> sin x" by linarith
  from b show "sin x \<le> x - x^3 / 6 + x^5 / 120 + x^7 / 5040" by linarith
qed

lemma pi_upper: "pi < 3145 / 1000"
proof (rule ccontr)
  assume "\<not> pi < 3145 / 1000"
  then have a: "629 / 1200 \<le> pi / 6" by simp
  have "sin (629 / 1200) \<le> sin (pi / 6)"
    using a pi_ge_two by (intro sin_monotone_2pi_le) auto
  moreover have "(629 / 1200 :: real) - (629 / 1200)^3 / 6 + (629 / 1200)^5 / 120 - (629 / 1200)^7 / 5040
      \<le> sin (629 / 1200)"
    by (rule sin_taylor) simp
  ultimately have "(629 / 1200 :: real) - (629 / 1200)^3 / 6 + (629 / 1200)^5 / 120 - (629 / 1200)^7 / 5040
      \<le> 1 / 2" by (simp add: sin_30)
  then show False by (simp add: power_divide)
qed

lemma pi_lower: "31 / 10 < pi"
proof (rule ccontr)
  assume "\<not> 31 / 10 < pi"
  then have a: "pi / 6 \<le> 31 / 60" by simp
  have "sin (pi / 6) \<le> sin (31 / 60)"
    using a pi_ge_two by (intro sin_monotone_2pi_le) auto
  moreover have "sin (31 / 60) \<le> (31 / 60 :: real) - (31 / 60)^3 / 6 + (31 / 60)^5 / 120 + (31 / 60)^7 / 5040"
    by (rule sin_taylor) simp
  ultimately have "1 / 2 \<le> (31 / 60 :: real) - (31 / 60)^3 / 6 + (31 / 60)^5 / 120 + (31 / 60)^7 / 5040"
    by (simp add: sin_30)
  then show False by (simp add: power_divide)
qed

text \<open>
  For an angle of \<open>d\<close> degrees between 0 and 88, the sine lies between the Taylor bounds
  at the ends of the interval that the bounds on \<open>pi\<close> give.
\<close>

lemma sin_degrees_bounds:
  fixes d :: real
  assumes "0 \<le> d" "d \<le> 88"
  defines "lo \<equiv> d * 31 / 1800" and "hi \<equiv> d * 3145 / 180000"
  shows "lo - lo^3 / 6 + lo^5 / 120 - lo^7 / 5040 \<le> sin (glm_radians d)"
    and "sin (glm_radians d) \<le> hi - hi^3 / 6 + hi^5 / 120 + hi^7 / 5040"
proof -
  have lo0: "0 \<le> lo" and hi0: "0 \<le> hi" using assms by (simp_all add: lo_def hi_def)
  have lo: "lo \<le> glm_radians d"
  proof -
    have "d * (31 / 10) \<le> d * pi" using assms(1) pi_lower by (intro mult_left_mono) auto
    then show ?thesis by (simp add: lo_def glm_radians_def algebra_simps)
  qed
  have hi: "glm_radians d \<le> hi"
  proof -
    have "d * pi \<le> d * (3145 / 1000)" using assms(1) pi_upper by (intro mult_left_mono) auto
    then show ?thesis by (simp add: hi_def glm_radians_def algebra_simps)
  qed
  have top: "hi \<le> pi / 2"
  proof -
    have "d * 3145 / 180000 \<le> 88 * 3145 / 180000" using assms(2) by simp
    also have "\<dots> \<le> (31 / 10) / 2" by simp
    also have "\<dots> \<le> pi / 2" using pi_lower by simp
    finally show ?thesis by (simp add: hi_def)
  qed
  have "sin lo \<le> sin (glm_radians d)"
    using lo lo0 hi top by (intro sin_monotone_2pi_le) (auto intro: order_trans)
  with sin_taylor(1)[OF lo0] show "lo - lo^3 / 6 + lo^5 / 120 - lo^7 / 5040 \<le> sin (glm_radians d)"
    by linarith
  have "sin (glm_radians d) \<le> sin hi"
    using lo lo0 hi top by (intro sin_monotone_2pi_le) (auto intro: order_trans)
  with sin_taylor(2)[OF hi0] show "sin (glm_radians d) \<le> hi - hi^3 / 6 + hi^5 / 120 + hi^7 / 5040"
    by linarith
qed

lemma segment_tip_rule:
  "segment_tip (SetTransformationsCall (sx, h, sz) 0 0 Z base) = tip_rule base h Z"
proof -
  obtain b1 b2 b3 where b: "base = (b1, b2, b3)" by (cases base) auto
  have "glm_radians 0 = 0" by (simp add: glm_radians_def)
  then show ?thesis
    by (simp add: b tip_rule_def modelView_apply glm_rotate_zero glm_rotate_Z mat_vec_identity)
       (simp add: mat_vec_def dot4_def glm_scale_def glm_translate_def)
qed

lemma glm_radians_minus: "glm_radians (- d) = - glm_radians d"
  by (simp add: glm_radians_def)

lemma deg_20: "glm_radians 20 = pi / 9" and deg_15: "glm_radians 15 = pi / 12"
  by (simp_all add: glm_radians_def)

lemma sin_deg_20: "3419 / 10000 < sin (glm_radians 20)" "sin (glm_radians 20) < 3423 / 10000"
  using sin_20_bounds by (simp_all add: deg_20)

lemma cos_deg_20: "9396 / 10000 < cos (glm_radians 20)" "cos (glm_radians 20) < 9397 / 10000"
  using cos_20_bounds by (simp_all add: deg_20)

lemma sin_deg_15: "2587 / 10000 < sin (glm_radians 15)" "sin (glm_radians 15) < 2589 / 10000"
  using sin_15_bounds by (simp_all add: deg_15)

lemma cos_deg_15: "9659 / 10000 < cos (glm_radians 15)" "cos (glm_radians 15) < 966 / 1000"
  using cos_15_bounds by (simp_all add: deg_15)

lemma sin_deg_8: "1373 / 10000 \<le> sin (glm_radians 8)" "sin (glm_radians 8) \<le> 1394 / 10000"
proof -
  from sin_degrees_bounds(1)[of 8] show "1373 / 10000 \<le> sin (glm_radians 8)"
    by (simp add: power_divide)
  from sin_degrees_bounds(2)[of 8] show "sin (glm_radians 8) \<le> 1394 / 10000"
    by (simp add: power_divide)
qed

lemma sin_deg_4: "688 / 10000 \<le> sin (glm_radians 4)" "sin (glm_radians 4) \<le> 699 / 10000"
proof -
  from sin_degrees_bounds(1)[of 4] show "688 / 10000 \<le> sin (glm_radians 4)"
    by (simp add: power_divide)
  from sin_degrees_bounds(2)[of 4] show "sin (glm_radians 4) \<le> 699 / 10000"
    by (simp add: power_divide)
qed

lemma cos_deg_8: "9902 / 10000 \<le> cos (glm_radians 8)" "cos (glm_radians 8) \<le> 9906 / 10000"
proof -
  have "glm_radians 8 = 2 * glm_radians 4" by (simp add: glm_radians_def)
  then have c: "cos (glm_radians 8) = 1 - 2 * (sin (glm_radians 4))\<^sup>2"
    by (simp only: cos_double_sin)
  have pos: "0 \<le> sin (glm_radians 4)" using sin_deg_4(1) by simp
  have "(sin (glm_radians 4))\<^sup>2 \<le> (699 / 10000)\<^sup>2"
    using sin_deg_4(2) pos by (intro power_mono) auto
  then show "9902 / 10000 \<le> cos (glm_radians 8)" by (simp add: c power2_eq_square)
  have "(688 / 10000)\<^sup>2 \<le> (sin (glm_radians 4))\<^sup>2"
    using sin_deg_4(1) by (intro power_mono) auto
  then show "cos (glm_radians 8) \<le> 9906 / 10000" by (simp add: c power2_eq_square)
qed

lemma sin_deg_50: "7656 / 10000 < sin (glm_radians 50)" "sin (glm_radians 50) < 7661 / 10000"
proof -
  have "glm_radians 50 = pi / 2 - 2 * glm_radians 20" by (simp add: glm_radians_def)
  then have "sin (glm_radians 50) = cos (2 * glm_radians 20)"
    by (simp add: sin_diff)
  then have e: "sin (glm_radians 50) = 2 * (cos (glm_radians 20))\<^sup>2 - 1"
    by (simp only: cos_double_cos)
  have "(9396 / 10000)\<^sup>2 < (cos (glm_radians 20))\<^sup>2"
    using cos_deg_20(1) by (intro power_strict_mono) auto
  then show "7656 / 10000 < sin (glm_radians 50)" by (simp add: e power2_eq_square)
  have "0 \<le> cos (glm_radians 20)" using cos_deg_20(1) by simp
  then have "(cos (glm_radians 20))\<^sup>2 < (9397 / 10000)\<^sup>2"
    using cos_deg_20(2) by (intro power_strict_mono) auto
  then show "sin (glm_radians 50) < 7661 / 10000" by (simp add: e power2_eq_square)
qed

lemma cos_deg_50: "6424 / 10000 < cos (glm_radians 50)" "cos (glm_radians 50) < 6434 / 10000"
proof -
  have "glm_radians 50 = pi / 2 - 2 * glm_radians 20" by (simp add: glm_radians_def)
  then have "cos (glm_radians 50) = sin (2 * glm_radians 20)"
    by (simp add: cos_diff)
  then have e: "cos (glm_radians 50) = 2 * (sin (glm_radians 20) * cos (glm_radians 20))"
    by (simp only: sin_double mult.assoc)
  have "(3419 / 10000) * (9396 / 10000) < sin (glm_radians 20) * cos (glm_radians 20)"
    using sin_deg_20(1) cos_deg_20(1) by (intro mult_strict_mono) auto
  then show "6424 / 10000 < cos (glm_radians 50)" by (simp add: e)
  have "0 < cos (glm_radians 20)" using cos_deg_20(1) by simp
  moreover have "0 \<le> sin (glm_radians 20)" using sin_deg_20(1) by simp
  ultimately have "sin (glm_radians 20) * cos (glm_radians 20) < (3423 / 10000) * (9397 / 10000)"
    using sin_deg_20(2) cos_deg_20(2) by (intro mult_strict_mono) auto
  then show "cos (glm_radians 50) < 6434 / 10000" by (simp add: e)
qed

lemma deg_55_double: "cos (2 * glm_radians 55) = - sin (glm_radians 20)"
proof -
  have "2 * glm_radians 55 = pi / 2 + glm_radians 20" by (simp add: glm_radians_def)
  then show ?thesis by (simp add: cos_add)
qed

lemma deg_55_range: "0 < glm_radians 55" "glm_radians 55 < pi / 2"
  by (simp_all add: glm_radians_def)

lemma sin_deg_55: "8191 / 10000 < sin (glm_radians 55)" "sin (glm_radians 55) < 8193 / 10000"
proof -
  have sq: "(sin (glm_radians 55))\<^sup>2 = (1 + sin (glm_radians 20)) / 2"
    using deg_55_double cos_double_sin[of "glm_radians 55"] by simp
  have pos: "0 < sin (glm_radians 55)" by (rule sin_gt_zero2) (rule deg_55_range)+
  have n: "(8191 / 10000 :: real)\<^sup>2 = 67092481 / 100000000"
    "(8193 / 10000 :: real)\<^sup>2 = 67125249 / 100000000"
    by (simp_all add: power2_eq_square)
  have "(8191 / 10000 :: real)\<^sup>2 < (sin (glm_radians 55))\<^sup>2"
    using sin_deg_20(1) sq n by argo
  then show "8191 / 10000 < sin (glm_radians 55)"
    using pos by (intro power2_less_imp_less[of "8191 / 10000"]) auto
  have "(sin (glm_radians 55))\<^sup>2 < (8193 / 10000 :: real)\<^sup>2"
    using sin_deg_20(2) sq n by argo
  then show "sin (glm_radians 55) < 8193 / 10000"
    by (intro power2_less_imp_less[of _ "8193 / 10000"]) auto
qed

lemma cos_deg_55: "5734 / 10000 < cos (glm_radians 55)" "cos (glm_radians 55) < 5737 / 10000"
proof -
  have sq: "(cos (glm_radians 55))\<^sup>2 = (1 - sin (glm_radians 20)) / 2"
    using deg_55_double cos_double_cos[of "glm_radians 55"] by simp
  have pos: "0 < cos (glm_radians 55)" by (rule cos_gt_zero) (rule deg_55_range)+
  have n: "(5734 / 10000 :: real)\<^sup>2 = 32878756 / 100000000"
    "(5737 / 10000 :: real)\<^sup>2 = 32913169 / 100000000"
    by (simp_all add: power2_eq_square)
  have "(5734 / 10000 :: real)\<^sup>2 < (cos (glm_radians 55))\<^sup>2"
    using sin_deg_20(2) sq n by argo
  then show "5734 / 10000 < cos (glm_radians 55)"
    using pos by (intro power2_less_imp_less[of "5734 / 10000"]) auto
  have "(cos (glm_radians 55))\<^sup>2 < (5737 / 10000 :: real)\<^sup>2"
    using sin_deg_20(1) sq n by argo
  then show "cos (glm_radians 55) < 5737 / 10000"
    by (intro power2_less_imp_less[of _ "5737 / 10000"]) auto
qed

lemma trunk_call_2:
  "trunk_calls ! 2 = SetTransformationsCall (0.22, 0.45, 0.22) 0 0 (-20)
     (potCenterX + 0.00, potTopY + 0.05, potCenterZ)"
  and trunk_call_4:
  "trunk_calls ! 4 = SetTransformationsCall (0.21, 0.21, 0.21) 0 0 0
     (potCenterX + 0.15, potTopY + 0.47, potCenterZ)"
  and trunk_call_6:
  "trunk_calls ! 6 = SetTransformationsCall (0.19, 0.75, 0.19) 0 0 (-15)
     (potCenterX + 0.15, potTopY + 0.47, potCenterZ)"
  and trunk_call_8:
  "trunk_calls ! 8 = SetTransformationsCall (0.19, 0.19, 0.19) 0 0 0
     (potCenterX + 0.34, potTopY + 1.19, potCenterZ)"
  and trunk_call_10:
  "trunk_calls ! 10 = SetTransformationsCall (0.16, 0.75, 0.16) 0 0 8
     (potCenterX + 0.34, potTopY + 1.19, potCenterZ)"
  and trunk_call_12:
  "trunk_calls ! 12 = SetTransformationsCall (0.16, 0.16, 0.16) 0 0 0
     (potCenterX + 0.24, potTopY + 1.93, potCenterZ)"
  by (simp_all add: trunk_calls_def)

lemma branch_call_0:
  "branch_calls ! 0 = SetTransformationsCall (0.11, 1.40, 0.11) 0 0 55
     (potCenterX + 0.15, potTopY + 0.47, potCenterZ)"
  and branch_call_4:
  "branch_calls ! 4 = SetTransformationsCall (0.10, 1.20, 0.10) 0 0 (-50)
     (potCenterX + 0.34, potTopY + 1.19, potCenterZ)"
  by (simp_all add: branch_calls_def)

lemma cluster_call_0:
  "call_position (left_cluster_calls ! 0) = (lcX, lcY, lcZ)"
  "call_position (right_cluster_calls ! 0) = (rcX, rcY, rcZ)"
  by (simp_all add: left_cluster_calls_def right_cluster_calls_def)

lemmas tip_simps = segment_tip_rule tip_rule_def close_to_def glm_radians_minus
  potCenterX_def potCenterZ_def potTopY_def potBaseY_def upperTableY_def topThickness_def
  baseH_def upperH_def lcX_def lcY_def lcZ_def rcX_def rcY_def rcZ_def

lemma s1_close: "close_to (5 / 1000) (call_position (trunk_calls ! 4)) (segment_tip (trunk_calls ! 2))"
  using sin_deg_20 cos_deg_20
  by (simp add: trunk_call_2 trunk_call_4 tip_simps abs_le_iff del: segment_tip.simps)

lemma s1_not_close:
  "\<not> close_to (1 / 1000) (call_position (trunk_calls ! 4)) (segment_tip (trunk_calls ! 2))"
  using sin_deg_20 cos_deg_20
  by (simp add: trunk_call_2 trunk_call_4 tip_simps abs_le_iff del: segment_tip.simps)

lemma rule_from_origin:
  "tip_rule (0, 0, 0) 0.45 (-20) = (0.45 * sin (glm_radians 20), 0.45 * cos (glm_radians 20), 0)"
  by (simp add: tip_rule_def glm_radians_minus)

lemma rule_from_origin_close:
  "close_to (1 / 1000) (tip_rule (0, 0, 0) 0.45 (-20)) (0.154, 0.423, 0)"
proof -
  have "\<bar>45 / 100 * sin (glm_radians 20) - 154 / 1000\<bar> \<le> 1 / 1000"
    using sin_deg_20 by linarith
  moreover have "\<bar>45 / 100 * cos (glm_radians 20) - 423 / 1000\<bar> \<le> 1 / 1000"
    using cos_deg_20 by linarith
  ultimately show ?thesis by (simp add: tip_rule_def close_to_def glm_radians_minus)
qed

lemma s2_close: "close_to (5 / 1000) (call_position (trunk_calls ! 8)) (segment_tip (trunk_calls ! 6))"
  using sin_deg_15 cos_deg_15
  by (simp add: trunk_call_6 trunk_call_8 tip_simps abs_le_iff del: segment_tip.simps)

lemma s2_chain_close:
  "close_to (1 / 100) (call_position (trunk_calls ! 8))
     (tip_rule (segment_tip (trunk_calls ! 2)) 0.75 (-15))"
  using sin_deg_15 cos_deg_15 sin_deg_20 cos_deg_20
  by (simp add: trunk_call_2 trunk_call_8 tip_simps abs_le_iff del: segment_tip.simps)

lemma s2_chain_not_close:
  "\<not> close_to (1 / 1000) (call_position (trunk_calls ! 8))
     (tip_rule (segment_tip (trunk_calls ! 2)) 0.75 (-15))"
  using sin_deg_15 cos_deg_15 sin_deg_20 cos_deg_20
  by (simp add: trunk_call_2 trunk_call_8 tip_simps abs_le_iff del: segment_tip.simps)

lemma s3_close: "close_to (5 / 1000) (call_position (trunk_calls ! 12)) (segment_tip (trunk_calls ! 10))"
  using sin_deg_8 cos_deg_8
  by (simp add: trunk_call_10 trunk_call_12 tip_simps abs_le_iff del: segment_tip.simps)

lemma left_tip_close: "close_to (5 / 1000) (lcX, lcY, lcZ) (segment_tip (branch_calls ! 0))"
  using sin_deg_55 cos_deg_55
  by (simp add: branch_call_0 tip_simps abs_le_iff del: segment_tip.simps)

lemma right_tip_close: "close_to (5 / 1000) (rcX, rcY, rcZ) (segment_tip (branch_calls ! 4))"
  using sin_deg_50 cos_deg_50
  by (simp add: branch_call_4 tip_simps abs_le_iff del: segment_tip.simps)

lemma left_tip_not_equal: "(lcX, lcY, lcZ) \<noteq> segment_tip (branch_calls ! 0)"
  using sin_deg_55 cos_deg_55
  by (simp add: branch_call_0 tip_simps del: segment_tip.simps)

text \<open>
  C1, as stated, fails at the tolerance 1e-3: the position hardcoded for the first joint is
  farther than that from the tip the rule derives for segment 1, and the position hardcoded
  for the second joint is farther than that from the tip of segment 2 chained from the
  derived first joint.
\<close>

theorem trunk_joints_counterexample:
  "\<not> close_to (1 / 1000) (call_position (trunk_calls ! 4)) (segment_tip (trunk_calls ! 2)) \<and>
   \<not> close_to (1 / 1000) (call_position (trunk_calls ! 8))
       (tip_rule (segment_tip (trunk_calls ! 2)) 0.75 (-15))"
  using s1_not_close s2_chain_not_close by simp

text \<open>
  C1, amended: segment 1 has length 0.45 and angle -20 degrees; from the origin the rule
  gives \<open>(0.45 sin 20, 0.45 cos 20)\<close>, within 1e-3 of \<open>(0.154, 0.423)\<close>. The joint positions
  hardcoded in the rendering sequence are the rule's values to two decimals: each of the
  joints s1, s2, s3 lies within 0.005, in every coordinate, of the tip of the segment that
  starts at the previous hardcoded joint (lengths 0.45, 0.75, 0.75, angles -20, -15, +8),
  and s2 lies within 0.01 of segment 2 chained from the derived first joint.
\<close>

theorem trunk_joints_two_decimals:
  "trunk_calls ! 2 = SetTransformationsCall (0.22, 0.45, 0.22) 0 0 (-20)
     (potCenterX + 0.00, potTopY + 0.05, potCenterZ) \<and>
   tip_rule (0, 0, 0) 0.45 (-20) = (0.45 * sin (glm_radians 20), 0.45 * cos (glm_radians 20), 0) \<and>
   close_to (1 / 1000) (tip_rule (0, 0, 0) 0.45 (-20)) (0.154, 0.423, 0) \<and>
   segment_tip (trunk_calls ! 2) = tip_rule (call_position (trunk_calls ! 2)) 0.45 (-20) \<and>
   close_to (5 / 1000) (call_position (trunk_calls ! 4)) (segment_tip (trunk_calls ! 2)) \<and>
   trunk_calls ! 6 = SetTransformationsCall (0.19, 0.75, 0.19) 0 0 (-15)
     (call_position (trunk_calls ! 4)) \<and>
   segment_tip (trunk_calls ! 6) = tip_rule (call_position (trunk_calls ! 4)) 0.75 (-15) \<and>
   close_to (5 / 1000) (call_position (trunk_calls ! 8)) (segment_tip (trunk_calls ! 6)) \<and>
   close_to (1 / 100) (call_position (trunk_calls ! 8))
     (tip_rule (segment_tip (trunk_calls ! 2)) 0.75 (-15)) \<and>
   trunk_calls ! 10 = SetTransformationsCall (0.16, 0.75, 0.16) 0 0 8
     (call_position (trunk_calls ! 8)) \<and>
   segment_tip (trunk_calls ! 10) = tip_rule (call_position (trunk_calls ! 8)) 0.75 8 \<and>
   close_to (5 / 1000) (call_position (trunk_calls ! 12)) (segment_tip (trunk_calls ! 10))"
proof -
  have a: "segment_tip (trunk_calls ! 2) = tip_rule (call_position (trunk_calls ! 2)) 0.45 (-20)"
    by (simp only: trunk_call_2 segment_tip_rule call_position.simps)
  have b: "trunk_calls ! 6 = SetTransformationsCall (0.19, 0.75, 0.19) 0 0 (-15)
     (call_position (trunk_calls ! 4))"
    by (simp only: trunk_call_6 trunk_call_4 call_position.simps)
  have c: "segment_tip (trunk_calls ! 6) = tip_rule (call_position (trunk_calls ! 4)) 0.75 (-15)"
    by (simp only: b segment_tip_rule)
  have d: "trunk_calls ! 10 = SetTransformationsCall (0.16, 0.75, 0.16) 0 0 8
     (call_position (trunk_calls ! 8))"
    by (simp only: trunk_call_10 trunk_call_8 call_position.simps)
  have e: "segment_tip (trunk_calls ! 10) = tip_rule (call_position (trunk_calls ! 8)) 0.75 8"
    by (simp only: d segment_tip_rule)
  from trunk_call_2 rule_from_origin rule_from_origin_close a s1_close b c s2_close
    s2_chain_close d e s3_close
  show ?thesis by (intro conjI)
qed

text \<open>
  C2, as stated, fails: the left branch does not start at the second trunk joint, the right
  branch does not start at the third, and the anchor of the left leaf cluster is not equal
  to the derived tip of the left branch.
\<close>

theorem branch_origins_counterexample:
  "call_position (branch_calls ! 0) \<noteq> call_position (trunk_calls ! 8) \<and>
   call_position (branch_calls ! 4) \<noteq> call_position (trunk_calls ! 12) \<and>
   (lcX, lcY, lcZ) \<noteq> segment_tip (branch_calls ! 0)"
proof -
  have "call_position (branch_calls ! 0) \<noteq> call_position (trunk_calls ! 8)"
    by (simp add: branch_call_0 trunk_call_8)
  moreover have "call_position (branch_calls ! 4) \<noteq> call_position (trunk_calls ! 12)"
    by (simp add: branch_call_4 trunk_call_12)
  ultimately show ?thesis using left_tip_not_equal by simp
qed

text \<open>
  C2, amended: the left branch (angle +55 degrees, length 1.4) starts at the first trunk
  joint s1 and the right branch (angle -50 degrees, length 1.2) at the second trunk joint
  s2; each tip is \<open>origin + length * (-sin angle, cos angle)\<close> in the XY plane; and the anchor
  points of the left and right leaf clusters lie within 0.005, in every coordinate, of
  those tips.
\<close>

theorem branch_tips_two_decimals:
  "branch_calls ! 0 = SetTransformationsCall (0.11, 1.40, 0.11) 0 0 55
     (call_position (trunk_calls ! 4)) \<and>
   branch_calls ! 4 = SetTransformationsCall (0.10, 1.20, 0.10) 0 0 (-50)
     (call_position (trunk_calls ! 8)) \<and>
   segment_tip (branch_calls ! 0) = tip_rule (call_position (trunk_calls ! 4)) 1.4 55 \<and>
   segment_tip (branch_calls ! 4) = tip_rule (call_position (trunk_calls ! 8)) 1.2 (-50) \<and>
   call_position (left_cluster_calls ! 0) = (lcX, lcY, lcZ) \<and>
   call_position (right_cluster_calls ! 0) = (rcX, rcY, rcZ) \<and>
   close_to (5 / 1000) (lcX, lcY, lcZ) (segment_tip (branch_calls ! 0)) \<and>
   close_to (5 / 1000) (rcX, rcY, rcZ) (segment_tip (branch_calls ! 4))"
proof -
  have a: "branch_calls ! 0 = SetTransformationsCall (0.11, 1.40, 0.11) 0 0 55
     (call_position (trunk_calls ! 4))"
    by (simp only: branch_call_0 trunk_call_4 call_position.simps)
  have b: "branch_calls ! 4 = SetTransformationsCall (0.10, 1.20, 0.10) 0 0 (-50)
     (call_position (trunk_calls ! 8))"
    by (simp only: branch_call_4 trunk_call_8 call_position.simps)
  have c: "segment_tip (branch_calls ! 0) = tip_rule (call_position (trunk_calls ! 4)) 1.4 55"
    by (simp add: a segment_tip_rule del: segment_tip.simps)
  have d: "segment_tip (branch_calls ! 4) = tip_rule (call_position (trunk_calls ! 8)) 1.2 (-50)"
    by (simp add: b segment_tip_rule del: segment_tip.simps)
  from a b c d cluster_call_0 left_tip_close right_tip_close
  show ?thesis by (intro conjI)
qed

end
